theory Spec2Isabelle
  imports Main "HOL-Library.Word"
begin

section \<open>The contract UltraEfficientIntentBridge (contracts/IntentBridge2.sol)\<close>

subsection \<open>Values, events, revert reasons\<close>

type_synonym uint256 = "256 word"
type_synonym bytes32 = "256 word"
type_synonym address = "160 word"
type_synonym bytes = "8 word list"

text \<open>The three events of the contract, with their arguments in declaration order.\<close>

datatype event =
    IntentFulfilled address address address uint256 uint256
  | StakeAdded address uint256 uint256
  | StakeWithdrawn address uint256 uint256

text \<open>
  Every way a call can revert. \<open>Error msg\<close> is a failed \<open>require(cond, msg)\<close> with the
  message of the source; \<open>Panic_overflow\<close> is the compiler's checked arithmetic
  (pragma 0.8.20); the others are raised by the imported library code or by the message
  call itself (\<open>OutOfFunds\<close>: the caller does not own the value it attaches).
  \<open>ECDSAInvalidSignature\<close> stands for the three errors of ECDSA (invalid signature,
  length, s value), \<open>SafeERC20FailedOperation\<close> for every failure of the token call, and
  \<open>FailedCall\<close> for every failure of the recipient of a value transfer.
\<close>

datatype error =
    Error string
  | Panic_overflow
  | ReentrancyGuardReentrantCall
  | ECDSAInvalidSignature
  | SafeERC20FailedOperation address
  | InsufficientBalance
  | FailedCall
  | OutOfFunds

subsection \<open>State\<close>

text \<open>
  Modelled from the spec: the contracts MockToken.sol and TestToken.sol are not among the
  sources, so a token is the spec's "standard fungible-asset ledger with
  transfer/approve semantics": balances and allowances per owner and spender.
\<close>

record ledger =
  balanceOf :: "address \<Rightarrow> uint256"
  allowance :: "address \<Rightarrow> address \<Rightarrow> uint256"

text \<open>
  The storage of the contract (\<open>nonces\<close>, \<open>solverStakes\<close>, the status word of
  ReentrancyGuard as \<open>entered\<close>), the log of emitted events, and the part of the chain the
  contract touches: native balances and the token ledgers.
\<close>

record world =
  nonces :: "address \<Rightarrow> uint256"
  solverStakes :: "address \<Rightarrow> uint256"
  entered :: bool
  events :: "event list"
  balance :: "address \<Rightarrow> uint256"
  tokens :: "address \<Rightarrow> ledger"

text \<open>
  What the contract is deployed against. The hash, the typed-data hash of EIP712 (which
  mixes in the domain separator) and the signature recovery are parameters:
  \<open>ECDSA_recover\<close> is \<open>None\<close> where ECDSA.recover reverts, as it does on a signature it
  cannot recover. \<open>self\<close> is address(this). The last two fields are the code of the other
  contracts: what a token does when its transferFrom is called (token, caller, from, to,
  value) and what an account does when it receives value (recipient, payer, value); each
  runs on the whole state as it is at the moment of the call and may fail (\<open>None\<close>).
\<close>

record env =
  keccak256 :: "bytes \<Rightarrow> bytes32"
  hashTypedDataV4 :: "bytes32 \<Rightarrow> bytes32"
  ECDSA_recover :: "bytes32 \<Rightarrow> bytes \<Rightarrow> address option"
  self :: address
  transferFrom :: "address \<Rightarrow> address \<Rightarrow> address \<Rightarrow> address \<Rightarrow> uint256 \<Rightarrow> world \<Rightarrow> world option"
  receive_value :: "address \<Rightarrow> address \<Rightarrow> uint256 \<Rightarrow> world \<Rightarrow> world option"

subsection \<open>Arithmetic and encoding\<close>

definition MINIMUM_STAKE :: uint256 where
  "MINIMUM_STAKE = 1000000000000000000"

text \<open>Addition of the 0.8 compiler: it reverts where the sum does not fit 256 bits.\<close>

definition checked_add :: "uint256 \<Rightarrow> uint256 \<Rightarrow> error + uint256" where
  "checked_add a b = (if unat a + unat b < 2 ^ 256 then Inr (a + b) else Inl Panic_overflow)"

text \<open>The 32 bytes of a word, most significant first.\<close>

definition bytes32_of :: "uint256 \<Rightarrow> bytes" where
  "bytes32_of w = map (\<lambda>i. ucast (drop_bit (8 * (31 - i)) w)) [0..<32]"

text \<open>
  abi.encode of static values (bytes32, address, uint256): each one a word of 32 bytes,
  an address padded on the left.
\<close>

definition abi_encode :: "uint256 list \<Rightarrow> bytes" where
  "abi_encode ws = concat (map bytes32_of ws)"

definition bytes_of_string :: "string \<Rightarrow> bytes" where
  "bytes_of_string cs = map of_char cs"

definition INTENT_TYPEHASH :: "env \<Rightarrow> bytes32" where
  "INTENT_TYPEHASH env = keccak256 env (bytes_of_string
     ''Intent(address user,address token,uint256 amount,uint256 fee,uint256 nonce,uint256 deadline)'')"

definition SOLVER_COMMIT_TYPEHASH :: "env \<Rightarrow> bytes32" where
  "SOLVER_COMMIT_TYPEHASH env = keccak256 env (bytes_of_string ''SolverCommitment(bytes32 intentDigest)'')"

definition CANCEL_TYPEHASH :: "env \<Rightarrow> bytes32" where
  "CANCEL_TYPEHASH env = keccak256 env (bytes_of_string ''Cancel(address user,uint256 nonce)'')"

definition hashIntent ::
  "env \<Rightarrow> address \<Rightarrow> address \<Rightarrow> uint256 \<Rightarrow> uint256 \<Rightarrow> uint256 \<Rightarrow> uint256 \<Rightarrow> bytes32" where
  "hashIntent env user token amount fee nonce deadline =
     hashTypedDataV4 env (keccak256 env (abi_encode
       [INTENT_TYPEHASH env, ucast user, ucast token, amount, fee, nonce, deadline]))"

definition hashSolverCommit :: "env \<Rightarrow> bytes32 \<Rightarrow> bytes32" where
  "hashSolverCommit env intentDigest =
     hashTypedDataV4 env (keccak256 env (abi_encode [SOLVER_COMMIT_TYPEHASH env, intentDigest]))"

definition hashCancel :: "env \<Rightarrow> address \<Rightarrow> uint256 \<Rightarrow> bytes32" where
  "hashCancel env user nonce =
     hashTypedDataV4 env (keccak256 env (abi_encode [CANCEL_TYPEHASH env, ucast user, nonce]))"

subsection \<open>Library code the contract calls\<close>

text \<open>
  The OpenZeppelin contracts that the source imports (lines 4 to 9) are not among the
  sources; the three helpers used are written out as the library documents them.

  The modifier nonReentrant of ReentrancyGuard: refuse when entered, else run the body
  entered and leave.
\<close>

definition nonReentrant :: "(world \<Rightarrow> error + world) \<Rightarrow> world \<Rightarrow> error + world" where
  "nonReentrant body s =
     (if entered s then Inl ReentrancyGuardReentrantCall
      else case body (s\<lparr>entered := True\<rparr>) of
             Inl e \<Rightarrow> Inl e
           | Inr s' \<Rightarrow> Inr (s'\<lparr>entered := False\<rparr>))"

text \<open>Moving native value between two accounts (on words: the arithmetic wraps).\<close>

definition pay :: "address \<Rightarrow> address \<Rightarrow> uint256 \<Rightarrow> world \<Rightarrow> world" where
  "pay payer payee v s =
     (let b = (balance s)(payer := balance s payer - v)
      in s\<lparr>balance := b(payee := b payee + v)\<rparr>)"

text \<open>
  Address.sendValue: the contract must hold the amount; the value moves and the
  recipient's code runs; a failing recipient reverts the call.
\<close>

definition sendValue :: "env \<Rightarrow> address \<Rightarrow> uint256 \<Rightarrow> world \<Rightarrow> error + world" where
  "sendValue env recipient amount s =
     (if balance s (self env) < amount then Inl InsufficientBalance
      else case receive_value env recipient (self env) amount (pay (self env) recipient amount s) of
             None \<Rightarrow> Inl FailedCall
           | Some s' \<Rightarrow> Inr s')"

text \<open>SafeERC20.safeTransferFrom: the token's transferFrom, called by the contract.\<close>

definition safeTransferFrom ::
  "env \<Rightarrow> address \<Rightarrow> address \<Rightarrow> address \<Rightarrow> uint256 \<Rightarrow> world \<Rightarrow> error + world" where
  "safeTransferFrom env token from to v s =
     (case transferFrom env token (self env) from to v s of
        None \<Rightarrow> Inl (SafeERC20FailedOperation token)
      | Some s' \<Rightarrow> Inr s')"

subsection \<open>The functions of the contract\<close>

text \<open>
  Every function takes msg.sender first (and msg.value or block.timestamp where it
  reads them) and returns the new state, or the revert reason. The statements are in the
  order of the source; stake is payable, so the value it carries has moved to the
  contract when its body runs.
\<close>

definition stake :: "env \<Rightarrow> address \<Rightarrow> uint256 \<Rightarrow> world \<Rightarrow> error + world" where
  "stake env msg_sender msg_value s =
     (if balance s msg_sender < msg_value then Inl OutOfFunds
      else let s0 = pay msg_sender (self env) msg_value s in
        if \<not> msg_value \<ge> MINIMUM_STAKE then Inl (Error ''Insufficient stake'')
        else (case checked_add (solverStakes s0 msg_sender) msg_value of
                Inl e \<Rightarrow> Inl e
              | Inr staked \<Rightarrow>
                  let s1 = s0\<lparr>solverStakes := (solverStakes s0)(msg_sender := staked)\<rparr>
                  in Inr (s1\<lparr>events := events s1 @
                       [StakeAdded msg_sender msg_value (solverStakes s1 msg_sender)]\<rparr>)))"

definition withdrawStake_body :: "env \<Rightarrow> address \<Rightarrow> uint256 \<Rightarrow> world \<Rightarrow> error + world" where
  "withdrawStake_body env msg_sender amount s =
     (let bal = solverStakes s msg_sender in
      if \<not> (amount > 0 \<and> amount \<le> bal) then Inl (Error ''invalid amount'')
      else let s1 = s\<lparr>solverStakes := (solverStakes s)(msg_sender := bal - amount)\<rparr> in
        (case sendValue env msg_sender amount s1 of
           Inl e \<Rightarrow> Inl e
         | Inr s2 \<Rightarrow>
             Inr (s2\<lparr>events := events s2 @
               [StakeWithdrawn msg_sender amount (solverStakes s2 msg_sender)]\<rparr>)))"

definition withdrawStake :: "env \<Rightarrow> address \<Rightarrow> uint256 \<Rightarrow> world \<Rightarrow> error + world" where
  "withdrawStake env msg_sender amount = nonReentrant (withdrawStake_body env msg_sender amount)"

definition fulfillIntent_body ::
  "env \<Rightarrow> address \<Rightarrow> uint256 \<Rightarrow> address \<Rightarrow> address \<Rightarrow> uint256 \<Rightarrow> uint256 \<Rightarrow> uint256 \<Rightarrow> bytes \<Rightarrow> bytes
     \<Rightarrow> world \<Rightarrow> error + world" where
  "fulfillIntent_body env msg_sender block_timestamp user token amount fee deadline
       userSignature solverSignature s =
     (if \<not> user \<noteq> 0 then Inl (Error ''zero user'')
      else if \<not> token \<noteq> 0 then Inl (Error ''zero token'')
      else if \<not> amount > 0 then Inl (Error ''zero amount'')
      else if \<not> amount > fee then Inl (Error ''fee >= amount'')
      else if \<not> block_timestamp \<le> deadline then Inl (Error ''expired'')
      else if \<not> solverStakes s msg_sender \<ge> MINIMUM_STAKE then Inl (Error ''Not staked'')
      else
        let nonce = nonces s user;
            intentDigest = hashIntent env user token amount fee nonce deadline
        in (case ECDSA_recover env intentDigest userSignature of
              None \<Rightarrow> Inl ECDSAInvalidSignature
            | Some signer \<Rightarrow>
                if \<not> signer = user then Inl (Error ''Invalid user sig'')
                else
                  let solverDigest = hashSolverCommit env intentDigest
                  in (case ECDSA_recover env solverDigest solverSignature of
                        None \<Rightarrow> Inl ECDSAInvalidSignature
                      | Some committer \<Rightarrow>
                          if \<not> committer = msg_sender then Inl (Error ''Invalid solver sig'')
                          else
                            (case checked_add nonce 1 of
                               Inl e \<Rightarrow> Inl e
                             | Inr bumped \<Rightarrow>
                                 let s1 = s\<lparr>nonces := (nonces s)(user := bumped)\<rparr>
                                 in (case checked_add amount fee of
                                       Inl e \<Rightarrow> Inl e
                                     | Inr owed \<Rightarrow>
                                         (case safeTransferFrom env token user msg_sender owed s1 of
                                            Inl e \<Rightarrow> Inl e
                                          | Inr s2 \<Rightarrow>
                                              Inr (s2\<lparr>events := events s2 @
                                                [IntentFulfilled user msg_sender token amount fee]\<rparr>)))))))"

definition fulfillIntent ::
  "env \<Rightarrow> address \<Rightarrow> uint256 \<Rightarrow> address \<Rightarrow> address \<Rightarrow> uint256 \<Rightarrow> uint256 \<Rightarrow> uint256 \<Rightarrow> bytes \<Rightarrow> bytes
     \<Rightarrow> world \<Rightarrow> error + world" where
  "fulfillIntent env msg_sender block_timestamp user token amount fee deadline userSignature solverSignature =
     nonReentrant (fulfillIntent_body env msg_sender block_timestamp user token amount fee deadline
       userSignature solverSignature)"

definition cancelIntent :: "env \<Rightarrow> address \<Rightarrow> uint256 \<Rightarrow> bytes \<Rightarrow> world \<Rightarrow> error + world" where
  "cancelIntent env msg_sender expectedNonce sig s =
     (if \<not> nonces s msg_sender = expectedNonce then Inl (Error ''nonce mismatch'')
      else
        let hash = hashCancel env msg_sender expectedNonce
        in (case ECDSA_recover env hash sig of
              None \<Rightarrow> Inl ECDSAInvalidSignature
            | Some signer \<Rightarrow>
                if \<not> signer = msg_sender then Inl (Error ''bad cancel sig'')
                else (case checked_add expectedNonce 1 of
                        Inl e \<Rightarrow> Inl e
                      | Inr bumped \<Rightarrow> Inr (s\<lparr>nonces := (nonces s)(msg_sender := bumped)\<rparr>))))"

subsection \<open>Calls and transactions\<close>

text \<open>
  The external calls of the contract. A transaction runs one call; when the call
  reverts, the chain keeps the state it had before (\<open>commit\<close>).
\<close>

datatype call =
    Stake address uint256
  | WithdrawStake address uint256
  | FulfillIntent address uint256 address address uint256 uint256 uint256 bytes bytes
  | CancelIntent address uint256 bytes

fun exec :: "env \<Rightarrow> call \<Rightarrow> world \<Rightarrow> error + world" where
  "exec env (Stake msg_sender msg_value) s = stake env msg_sender msg_value s"
| "exec env (WithdrawStake msg_sender amount) s = withdrawStake env msg_sender amount s"
| "exec env (FulfillIntent msg_sender block_timestamp user token amount fee deadline userSignature
      solverSignature) s =
     fulfillIntent env msg_sender block_timestamp user token amount fee deadline userSignature
       solverSignature s"
| "exec env (CancelIntent msg_sender expectedNonce sig) s = cancelIntent env msg_sender expectedNonce sig s"

definition commit :: "world \<Rightarrow> error + world \<Rightarrow> world" where
  "commit s r = (case r of Inl e \<Rightarrow> s | Inr s' \<Rightarrow> s')"

definition transact :: "env \<Rightarrow> call \<Rightarrow> world \<Rightarrow> world" where
  "transact env c s = commit s (exec env c s)"

text \<open>The user whose nonce a call consumes when it succeeds, if any.\<close>

fun consumes :: "call \<Rightarrow> address option" where
  "consumes (FulfillIntent msg_sender block_timestamp user token amount fee deadline userSignature
      solverSignature) = Some user"
| "consumes (CancelIntent msg_sender expectedNonce sig) = Some msg_sender"
| "consumes (Stake msg_sender msg_value) = None"
| "consumes (WithdrawStake msg_sender amount) = None"

subsection \<open>The require statements of fulfillIntent\<close>

text \<open>Lines 102 to 105, line 107, line 108, and the two signature checks (117 and 121).\<close>

definition intent_valid :: "address \<Rightarrow> address \<Rightarrow> uint256 \<Rightarrow> uint256 \<Rightarrow> bool" where
  "intent_valid user token amount fee \<longleftrightarrow> user \<noteq> 0 \<and> token \<noteq> 0 \<and> amount > 0 \<and> amount > fee"

definition user_signed ::
  "env \<Rightarrow> address \<Rightarrow> address \<Rightarrow> uint256 \<Rightarrow> uint256 \<Rightarrow> uint256 \<Rightarrow> bytes \<Rightarrow> world \<Rightarrow> bool" where
  "user_signed env user token amount fee deadline userSignature s \<longleftrightarrow>
     ECDSA_recover env (hashIntent env user token amount fee (nonces s user) deadline) userSignature
       = Some user"

definition solver_signed ::
  "env \<Rightarrow> address \<Rightarrow> address \<Rightarrow> address \<Rightarrow> uint256 \<Rightarrow> uint256 \<Rightarrow> uint256 \<Rightarrow> bytes \<Rightarrow> world \<Rightarrow> bool" where
  "solver_signed env msg_sender user token amount fee deadline solverSignature s \<longleftrightarrow>
     ECDSA_recover env
       (hashSolverCommit env (hashIntent env user token amount fee (nonces s user) deadline))
       solverSignature = Some msg_sender"

definition preconditions ::
  "env \<Rightarrow> address \<Rightarrow> uint256 \<Rightarrow> address \<Rightarrow> address \<Rightarrow> uint256 \<Rightarrow> uint256 \<Rightarrow> uint256 \<Rightarrow> bytes \<Rightarrow> bytes
     \<Rightarrow> world \<Rightarrow> bool" where
  "preconditions env msg_sender block_timestamp user token amount fee deadline userSignature
       solverSignature s \<longleftrightarrow>
     intent_valid user token amount fee \<and> block_timestamp \<le> deadline \<and>
     MINIMUM_STAKE \<le> solverStakes s msg_sender \<and>
     user_signed env user token amount fee deadline userSignature s \<and>
     solver_signed env msg_sender user token amount fee deadline solverSignature s"

text \<open>
  Other contracts run while the contract waits for them (the token in fulfillIntent, the
  recipient in withdrawStake). This is the assumption that such code leaves the nonce
  counters alone.
\<close>

definition external_code_keeps_nonces :: "env \<Rightarrow> bool" where
  "external_code_keeps_nonces env \<longleftrightarrow>
     (\<forall>token caller owner to v s s'.
        transferFrom env token caller owner to v s = Some s' \<longrightarrow> nonces s' = nonces s) \<and>
     (\<forall>recipient payer v s s'.
        receive_value env recipient payer v s = Some s' \<longrightarrow> nonces s' = nonces s)"

text \<open>
  The weaker property that such code never lowers a nonce. All code has it that reaches
  the nonces through the functions of the contract only.
\<close>

definition external_code_never_lowers_nonces :: "env \<Rightarrow> bool" where
  "external_code_never_lowers_nonces env \<longleftrightarrow>
     (\<forall>token caller owner to v s s' u.
        transferFrom env token caller owner to v s = Some s' \<longrightarrow>
          unat (nonces s u) \<le> unat (nonces s' u)) \<and>
     (\<forall>recipient payer v s s' u.
        receive_value env recipient payer v s = Some s' \<longrightarrow>
          unat (nonces s u) \<le> unat (nonces s' u))"

subsection \<open>What other code can do\<close>

text \<open>
  The storage of the contract (nonces, stakes, guard) and its event log are out of reach
  of every other account but through the four external functions. So what happens on
  the chain around the contract is a sequence of steps of two kinds: a call of one of the
  contract's functions, by whatever sender and with whatever arguments (a call that
  reverts is undone, and the sequence goes on), and a change of what lies outside the
  contract, the native balances and the token ledgers.
\<close>

datatype step = Call call | Outside "address \<Rightarrow> uint256" "address \<Rightarrow> ledger"

fun perform :: "env \<Rightarrow> step list \<Rightarrow> world \<Rightarrow> world" where
  "perform env [] s = s"
| "perform env (Call c # steps) s = perform env steps (transact env c s)"
| "perform env (Outside b t # steps) s = perform env steps (s\<lparr>balance := b, tokens := t\<rparr>)"

text \<open>
  The code of a token (called with token, caller, from, to, value) and of an account
  that receives value (recipient, payer, value), given by the steps it takes, or
  \<open>None\<close> when it fails. It sees its arguments and the state, so the steps may depend on
  them. \<open>with_code\<close> is the deployment against such code. The contract calls other code
  from fulfillIntent and withdrawStake only (lines 130 and 56), both nonReentrant: the
  guard is set while other code runs, a call back into these two functions is refused,
  and stake and cancelIntent call no one. The steps of the code are therefore performed
  with no further code behind them (\<open>inert\<close>).
\<close>

type_synonym token_code =
  "address \<Rightarrow> address \<Rightarrow> address \<Rightarrow> address \<Rightarrow> uint256 \<Rightarrow> world \<Rightarrow> step list option"

type_synonym account_code = "address \<Rightarrow> address \<Rightarrow> uint256 \<Rightarrow> world \<Rightarrow> step list option"

definition inert :: "env \<Rightarrow> env" where
  "inert env = env\<lparr>transferFrom := (\<lambda>token caller owner to v s. None),
                   receive_value := (\<lambda>recipient payer v s. None)\<rparr>"

definition with_code :: "env \<Rightarrow> token_code \<Rightarrow> account_code \<Rightarrow> env" where
  "with_code base tc rc = base
     \<lparr>transferFrom := (\<lambda>token caller owner to v s.
        map_option (\<lambda>steps. perform (inert base) steps s) (tc token caller owner to v s)),
      receive_value := (\<lambda>recipient payer v s.
        map_option (\<lambda>steps. perform (inert base) steps s) (rc recipient payer v s))\<rparr>"

text \<open>
  An intent of the user built with nonce \<open>n\<close>: the user signature it carries verifies
  with no nonce other than \<open>n\<close>, that is, whenever it recovers to the user over the
  intent digest with a nonce \<open>m\<close>, then \<open>m\<close> is \<open>n\<close>.
\<close>

definition built_with_nonce ::
  "env \<Rightarrow> address \<Rightarrow> address \<Rightarrow> uint256 \<Rightarrow> uint256 \<Rightarrow> uint256 \<Rightarrow> bytes \<Rightarrow> uint256 \<Rightarrow> bool" where
  "built_with_nonce env user token amount fee deadline userSignature n \<longleftrightarrow>
     (\<forall>m. ECDSA_recover env (hashIntent env user token amount fee m deadline) userSignature
            = Some user \<longrightarrow> m = n)"

subsection \<open>The collaborators: a standard token and plain accounts\<close>

text \<open>
  Modelled from the spec: the token contracts are not among the sources. The
  spec's asset ledger: "transferFrom(owner, spender, to, amount) fails with
  InsufficientAllowance/InsufficientBalance"; otherwise it lowers the allowance of the
  spender and moves the amount.
\<close>

definition erc20_transferFrom ::
  "address \<Rightarrow> address \<Rightarrow> address \<Rightarrow> address \<Rightarrow> uint256 \<Rightarrow> world \<Rightarrow> world option" where
  "erc20_transferFrom token spender owner to v s =
     (let l = tokens s token in
      if allowance l owner spender < v then None
      else if balanceOf l owner < v then None
      else
        let a = (allowance l)(owner := (allowance l owner)(spender := allowance l owner spender - v));
            b = (balanceOf l)(owner := balanceOf l owner - v)
        in Some (s\<lparr>tokens := (tokens s)(token := \<lparr>balanceOf = b(to := b to + v), allowance = a\<rparr>)\<rparr>))"

text \<open>An account that takes any value sent to it, and accounts of which some refuse it.\<close>

definition accept_value :: "address \<Rightarrow> address \<Rightarrow> uint256 \<Rightarrow> world \<Rightarrow> world option" where
  "accept_value recipient payer v s = Some s"

definition refuse_value :: "address \<Rightarrow> address \<Rightarrow> address \<Rightarrow> uint256 \<Rightarrow> world \<Rightarrow> world option" where
  "refuse_value refuser recipient payer v s = (if recipient = refuser then None else Some s)"

subsection \<open>A small instance\<close>

text \<open>
  An instance on which the theorems below are exercised. The hash is the checksum of
  the 32-byte words of its input, the typed-data hash adds one, and a signature is a key
  number followed by the 32 bytes of the signed digest: recovering it over that digest
  gives the key's address, over another digest an unrelated address, and a signature of
  another length makes the recovery fail.
\<close>

fun chunks :: "nat \<Rightarrow> bytes \<Rightarrow> uint256 list" where
  "chunks 0 bs = []"
| "chunks (Suc k) bs = word_rcat (take 32 bs) # chunks k (drop 32 bs)"

definition test_keccak256 :: "bytes \<Rightarrow> bytes32" where
  "test_keccak256 bs = sum_list (chunks (length bs div 32) bs)"

definition test_signer :: "8 word \<Rightarrow> address" where
  "test_signer k = 4096 + ucast k"

definition test_sign :: "8 word \<Rightarrow> bytes32 \<Rightarrow> bytes" where
  "test_sign k digest = k # bytes32_of digest"

definition test_recover :: "bytes32 \<Rightarrow> bytes \<Rightarrow> address option" where
  "test_recover digest sig =
     (case sig of
        [] \<Rightarrow> None
      | k # d \<Rightarrow>
          if length d \<noteq> 32 then None
          else if d = bytes32_of digest then Some (test_signer k)
          else Some (test_signer (k + 128)))"

definition test_bridge :: address where
  "test_bridge = 176"

definition test_env :: env where
  "test_env = \<lparr> keccak256 = test_keccak256, hashTypedDataV4 = (\<lambda>h. h + 1),
      ECDSA_recover = test_recover, self = test_bridge,
      transferFrom = erc20_transferFrom, receive_value = accept_value \<rparr>"

definition test_user :: address where
  "test_user = test_signer 1"

definition test_solver :: address where
  "test_solver = test_signer 2"

definition test_token :: address where
  "test_token = 112"

text \<open>
  The solver has staked exactly MINIMUM_STAKE and the contract holds it; the solver owns
  three times as much. The user owns 1000 units of the token and has approved the contract
  for 500.
\<close>

definition test_world :: world where
  "test_world = \<lparr> nonces = (\<lambda>_. 0), solverStakes = (\<lambda>_. 0)(test_solver := MINIMUM_STAKE),
      entered = False, events = [],
      balance = (\<lambda>_. 0)(test_bridge := MINIMUM_STAKE, test_solver := 3000000000000000000),
      tokens = (\<lambda>_. \<lparr>balanceOf = (\<lambda>_. 0), allowance = (\<lambda>_ _. 0)\<rparr>)
        (test_token := \<lparr>balanceOf = (\<lambda>_. 0)(test_user := 1000),
                 allowance = (\<lambda>_ _. 0)(test_user := (\<lambda>_. 0)(test_bridge := 500))\<rparr>) \<rparr>"

text \<open>
  The user's intent: \<open>amount\<close> units for a fee of 1, until time 2000, signed by the user
  with nonce \<open>n\<close>, and the solver's commitment to it.
\<close>

definition test_digest :: "uint256 \<Rightarrow> uint256 \<Rightarrow> bytes32" where
  "test_digest amount n = hashIntent test_env test_user test_token amount 1 n 2000"

definition test_userSignature :: "uint256 \<Rightarrow> uint256 \<Rightarrow> bytes" where
  "test_userSignature amount n = test_sign 1 (test_digest amount n)"

definition test_solverSignature :: "uint256 \<Rightarrow> uint256 \<Rightarrow> bytes" where
  "test_solverSignature amount n = test_sign 2 (hashSolverCommit test_env (test_digest amount n))"

definition test_cancelSignature :: "uint256 \<Rightarrow> bytes" where
  "test_cancelSignature n = test_sign 1 (hashCancel test_env test_user n)"

text \<open>The same deployment, but the solver is a contract that refuses value sent to it.\<close>

definition test_env_refusing :: env where
  "test_env_refusing = test_env\<lparr>receive_value := refuse_value test_solver\<rparr>"

text \<open>The instance after the solver has settled the intent for 100 units.\<close>

definition test_settled :: world where
  "test_settled = test_world\<lparr>nonces := (\<lambda>_. 0)(test_user := 1),
     tokens := (tokens test_world)(test_token :=
       \<lparr>balanceOf = (\<lambda>_. 0)(test_user := 899, test_solver := 101),
        allowance = (\<lambda>_ _. 0)(test_user := (\<lambda>_. 0)(test_bridge := 399))\<rparr>),
     events := [IntentFulfilled test_user test_solver test_token 100 1]\<rparr>"

text \<open>
  The standard token and the plain account as code: the token changes its ledger and
  calls no one, the plain account does nothing.
\<close>

definition erc20_code :: token_code where
  "erc20_code token spender owner to v s =
     map_option (\<lambda>s'. [Outside (balance s') (tokens s')]) (erc20_transferFrom token spender owner to v s)"

definition plain_account :: account_code where
  "plain_account recipient payer v s = Some []"

text \<open>
  An account that, on receiving value, stakes MINIMUM_STAKE again; and the deployment in
  which every recipient does so.
\<close>

definition restaking_account :: account_code where
  "restaking_account recipient payer v s = Some [Call (Stake recipient MINIMUM_STAKE)]"

definition test_env_restaking :: env where
  "test_env_restaking = with_code test_env erc20_code restaking_account"

text \<open>
  The user's account with code of its own (a delegated account has both a key and code),
  named as the token of an intent. Asked to transfer, it moves nothing, calls
  cancelIntent for nonce 1 with a cancellation that its key has signed beforehand, and
  reports success. The user's intent for 100 units of that token, signed with nonce 0,
  and the solver's commitment to it.
\<close>

definition test_cancelling_code :: token_code where
  "test_cancelling_code token spender owner to v s =
     Some [Call (CancelIntent token 1 (test_cancelSignature 1))]"

definition test_env_cancelling :: env where
  "test_env_cancelling = with_code test_env test_cancelling_code plain_account"

definition test_own_userSignature :: bytes where
  "test_own_userSignature = test_sign 1 (hashIntent test_env test_user test_user 100 1 0 2000)"

definition test_own_solverSignature :: bytes where
  "test_own_solverSignature =
     test_sign 2 (hashSolverCommit test_env (hashIntent test_env test_user test_user 100 1 0 2000))"

section \<open>Auxiliary facts\<close>

subsection \<open>The encoding of a word is injective\<close>

lemma length_bytes32_of [simp]: "length (bytes32_of w) = 32"
  by (simp add: bytes32_of_def del: upt_rec_numeral)

lemma rev_bytes32_of: "rev (bytes32_of w) = map (\<lambda>i. ucast (drop_bit (8 * i) w)) [0..<32]"
proof -
  have "rev [0..<32::nat] = map (\<lambda>i. 31 - i) [0..<32]"
    by code_simp
  then have "rev (bytes32_of w) = map (\<lambda>i. ucast (drop_bit (8 * (31 - i)) w)) (map (\<lambda>i. 31 - i) [0..<32])"
    unfolding bytes32_of_def rev_map by simp
  also have "\<dots> = map (\<lambda>i. ucast (drop_bit (8 * i) w)) [0..<32]"
    by (simp del: upt_rec_numeral)
  finally show ?thesis .
qed

lemma bit_horner_bytes:
  "bit (horner_sum uint 256 ws) n \<longleftrightarrow> n div 8 < length ws \<and> bit (ws ! (n div 8)) (n mod 8)"
  for ws :: "8 word list"
  using bit_horner_sum_uint_exp_iff [where ?'a = 8, of ws n] by simp

lemma word_rcat_bytes32_of [simp]: "(word_rcat (bytes32_of w) :: 256 word) = w"
proof (rule bit_word_eqI)
  fix n assume n: "n < LENGTH(256)"
  then have d: "n div 8 < 32" by simp
  have "bit (word_rcat (bytes32_of w) :: 256 word) n
      = bit (map (\<lambda>i. ucast (drop_bit (8 * i) w) :: 8 word) [0..<32] ! (n div 8)) (n mod 8)"
    using n d by (simp add: word_rcat_def bit_word_of_int_iff bit_horner_bytes rev_bytes32_of del: upt_rec_numeral)
  also have "\<dots> = bit (ucast (drop_bit (8 * (n div 8)) w) :: 8 word) (n mod 8)"
    using d by (simp del: upt_rec_numeral)
  also have "\<dots> = bit w n"
    by (simp add: bit_ucast_iff bit_drop_bit_eq)
  finally show "bit (word_rcat (bytes32_of w) :: 256 word) n = bit w n" .
qed

lemma bytes32_of_eq_iff [simp]: "bytes32_of a = bytes32_of b \<longleftrightarrow> a = b"
  by (metis word_rcat_bytes32_of)

lemma length_abi_encode: "length (abi_encode ws) = 32 * length ws"
  by (induction ws) (simp_all add: abi_encode_def)

subsection \<open>The functions, with the library code unfolded\<close>

lemma checked_add_Inr: "checked_add a b = Inr c \<longleftrightarrow> unat a + unat b < 2 ^ 256 \<and> c = a + b"
  by (auto simp: checked_add_def)

lemma checked_add_unat: "checked_add a b = Inr c \<Longrightarrow> unat c = unat a + unat b"
  by (auto simp: checked_add_def unat_word_ariths split: if_splits)

lemma unat_succ: "unat (n :: uint256) + 1 < 2 ^ 256 \<Longrightarrow> unat (n + 1) = unat n + 1"
  by (simp add: unat_word_ariths)

lemma MINIMUM_STAKE_pos [simp]: "0 < MINIMUM_STAKE" "MINIMUM_STAKE \<noteq> 0"
  by (simp_all add: MINIMUM_STAKE_def)

lemma pay_simps [simp]:
  "nonces (pay a b v s) = nonces s"
  "solverStakes (pay a b v s) = solverStakes s"
  "entered (pay a b v s) = entered s"
  "events (pay a b v s) = events s"
  "tokens (pay a b v s) = tokens s"
  by (simp_all add: pay_def Let_def)

lemma nonReentrant_Inr:
  "nonReentrant body s = Inr s' \<longleftrightarrow>
     \<not> entered s \<and> (\<exists>s2. body (s\<lparr>entered := True\<rparr>) = Inr s2 \<and> s' = s2\<lparr>entered := False\<rparr>)"
  by (auto simp: nonReentrant_def split: sum.splits)

lemma nonReentrant_entered: "entered s \<Longrightarrow> nonReentrant body s = Inl ReentrancyGuardReentrantCall"
  by (simp add: nonReentrant_def)

lemma preconditions_entered [simp]:
  "preconditions env sender now user token amount fee deadline usig ssig (s\<lparr>entered := b\<rparr>) =
   preconditions env sender now user token amount fee deadline usig ssig s"
  by (simp add: preconditions_def user_signed_def solver_signed_def)

lemma fulfillIntent_body_Inr:
  "fulfillIntent_body env sender now user token amount fee deadline usig ssig s = Inr s' \<longleftrightarrow>
     preconditions env sender now user token amount fee deadline usig ssig s \<and>
     unat (nonces s user) + 1 < 2 ^ 256 \<and> unat amount + unat fee < 2 ^ 256 \<and>
     (\<exists>s2. transferFrom env token (self env) user sender (amount + fee)
             (s\<lparr>nonces := (nonces s)(user := nonces s user + 1)\<rparr>) = Some s2 \<and>
           s' = s2\<lparr>events := events s2 @ [IntentFulfilled user sender token amount fee]\<rparr>)"
  unfolding fulfillIntent_body_def preconditions_def intent_valid_def user_signed_def
    solver_signed_def safeTransferFrom_def checked_add_def Let_def
  by (auto split: option.splits sum.splits simp: not_less not_le word_gt_0)

lemma fulfillIntent_Inr:
  "fulfillIntent env sender now user token amount fee deadline usig ssig s = Inr s' \<longleftrightarrow>
     \<not> entered s \<and>
     preconditions env sender now user token amount fee deadline usig ssig s \<and>
     unat (nonces s user) + 1 < 2 ^ 256 \<and> unat amount + unat fee < 2 ^ 256 \<and>
     (\<exists>s2. transferFrom env token (self env) user sender (amount + fee)
             (s\<lparr>entered := True, nonces := (nonces s)(user := nonces s user + 1)\<rparr>) = Some s2 \<and>
           s' = s2\<lparr>events := events s2 @ [IntentFulfilled user sender token amount fee],
                   entered := False\<rparr>)"
  unfolding fulfillIntent_def nonReentrant_Inr fulfillIntent_body_Inr
  by auto

lemma fulfillIntent_unfold:
  assumes "\<not> entered s"
  shows "fulfillIntent env sender now user token amount fee deadline usig ssig s =
    (if user = 0 then Inl (Error ''zero user'')
     else if token = 0 then Inl (Error ''zero token'')
     else if amount = 0 then Inl (Error ''zero amount'')
     else if amount \<le> fee then Inl (Error ''fee >= amount'')
     else if deadline < now then Inl (Error ''expired'')
     else if solverStakes s sender < MINIMUM_STAKE then Inl (Error ''Not staked'')
     else case ECDSA_recover env (hashIntent env user token amount fee (nonces s user) deadline) usig of
        None \<Rightarrow> Inl ECDSAInvalidSignature
      | Some a \<Rightarrow>
          if a \<noteq> user then Inl (Error ''Invalid user sig'')
          else (case ECDSA_recover env
                  (hashSolverCommit env (hashIntent env user token amount fee (nonces s user) deadline))
                  ssig of
             None \<Rightarrow> Inl ECDSAInvalidSignature
           | Some b \<Rightarrow>
               if b \<noteq> sender then Inl (Error ''Invalid solver sig'')
               else if 2 ^ 256 \<le> unat (nonces s user) + 1 then Inl Panic_overflow
               else if 2 ^ 256 \<le> unat amount + unat fee then Inl Panic_overflow
               else (case transferFrom env token (self env) user sender (amount + fee)
                       (s\<lparr>entered := True, nonces := (nonces s)(user := nonces s user + 1)\<rparr>) of
                  None \<Rightarrow> Inl (SafeERC20FailedOperation token)
                | Some s2 \<Rightarrow>
                    Inr (s2\<lparr>events := events s2 @ [IntentFulfilled user sender token amount fee],
                           entered := False\<rparr>))))"
  using assms
  unfolding fulfillIntent_def nonReentrant_def fulfillIntent_body_def safeTransferFrom_def
    checked_add_def Let_def
  by (auto simp: not_less not_le word_gt_0 split: option.splits sum.splits)

lemma withdrawStake_unfold:
  assumes "\<not> entered s"
  shows "withdrawStake env sender amount s =
    (if amount = 0 \<or> solverStakes s sender < amount then Inl (Error ''invalid amount'')
     else if balance s (self env) < amount then Inl InsufficientBalance
     else case receive_value env sender (self env) amount
            (pay (self env) sender amount
               (s\<lparr>entered := True,
                   solverStakes := (solverStakes s)(sender := solverStakes s sender - amount)\<rparr>)) of
        None \<Rightarrow> Inl FailedCall
      | Some s2 \<Rightarrow>
          Inr (s2\<lparr>events := events s2 @ [StakeWithdrawn sender amount (solverStakes s2 sender)],
                 entered := False\<rparr>))"
  using assms
  unfolding withdrawStake_def nonReentrant_def withdrawStake_body_def sendValue_def Let_def
  by (auto simp: not_less not_le word_gt_0 split: option.splits sum.splits)

lemma stake_unfold:
  "stake env sender v s =
    (if balance s sender < v then Inl OutOfFunds
     else if v < MINIMUM_STAKE then Inl (Error ''Insufficient stake'')
     else if 2 ^ 256 \<le> unat (solverStakes s sender) + unat v then Inl Panic_overflow
     else Inr ((pay sender (self env) v s)
            \<lparr>solverStakes := (solverStakes s)(sender := solverStakes s sender + v),
             events := events s @ [StakeAdded sender v (solverStakes s sender + v)]\<rparr>))"
  unfolding stake_def checked_add_def Let_def
  by (auto simp: not_less not_le pay_def Let_def)

lemma cancelIntent_unfold:
  "cancelIntent env sender expectedNonce sig s =
    (if nonces s sender \<noteq> expectedNonce then Inl (Error ''nonce mismatch'')
     else case ECDSA_recover env (hashCancel env sender expectedNonce) sig of
        None \<Rightarrow> Inl ECDSAInvalidSignature
      | Some a \<Rightarrow>
          if a \<noteq> sender then Inl (Error ''bad cancel sig'')
          else if 2 ^ 256 \<le> unat expectedNonce + 1 then Inl Panic_overflow
          else Inr (s\<lparr>nonces := (nonces s)(sender := expectedNonce + 1)\<rparr>))"
  unfolding cancelIntent_def checked_add_def Let_def
  by (auto simp: not_less not_le split: option.splits)

subsection \<open>Nonces over transactions\<close>

lemma exec_nonces:
  assumes keeps: "external_code_keeps_nonces env" and ok: "exec env c s = Inr s'"
  shows "nonces s' = (case consumes c of None \<Rightarrow> nonces s | Some u \<Rightarrow> (nonces s)(u := nonces s u + 1))"
    and "consumes c = Some u \<Longrightarrow> unat (nonces s u) + 1 < 2 ^ 256"
proof -
  from keeps have tok: "\<And>token caller owner to v s s'.
      transferFrom env token caller owner to v s = Some s' \<Longrightarrow> nonces s' = nonces s"
    and rcv: "\<And>recipient payer v s s'.
      receive_value env recipient payer v s = Some s' \<Longrightarrow> nonces s' = nonces s"
    unfolding external_code_keeps_nonces_def by blast+
  have "nonces s' = (case consumes c of None \<Rightarrow> nonces s | Some u \<Rightarrow> (nonces s)(u := nonces s u + 1)) \<and>
        (consumes c = Some u \<longrightarrow> unat (nonces s u) + 1 < 2 ^ 256)"
  proof (cases c)
    case (Stake a v)
    with ok show ?thesis
      by (auto simp: stake_unfold split: if_splits)
  next
    case (WithdrawStake a v)
    with ok have w: "withdrawStake env a v s = Inr s'" by simp
    then have g: "\<not> entered s"
      by (auto simp: withdrawStake_def nonReentrant_Inr)
    from w WithdrawStake show ?thesis
      by (auto simp: withdrawStake_unfold [OF g] split: if_splits option.splits dest!: rcv)
  next
    case (FulfillIntent a t u' tk am f d us ss)
    with ok show ?thesis
      by (auto simp: fulfillIntent_Inr dest!: tok)
  next
    case (CancelIntent a n sg)
    with ok show ?thesis
      by (auto simp: cancelIntent_unfold not_le split: if_splits option.splits)
  qed
  then show "nonces s' = (case consumes c of None \<Rightarrow> nonces s | Some u \<Rightarrow> (nonces s)(u := nonces s u + 1))"
    and "consumes c = Some u \<Longrightarrow> unat (nonces s u) + 1 < 2 ^ 256"
    by blast+
qed

lemma keeps_never_lowers:
  "external_code_keeps_nonces env \<Longrightarrow> external_code_never_lowers_nonces env"
  unfolding external_code_keeps_nonces_def external_code_never_lowers_nonces_def
  by (metis order_refl)

lemma exec_nonces_mono:
  assumes mono: "external_code_never_lowers_nonces env" and ok: "exec env c s = Inr s'"
  shows "unat (nonces s u) \<le> unat (nonces s' u)"
    and "consumes c = Some u \<Longrightarrow> unat (nonces s u) < unat (nonces s' u)"
proof -
  from mono have tok: "\<And>token caller owner to v s s' u.
      transferFrom env token caller owner to v s = Some s' \<Longrightarrow> unat (nonces s u) \<le> unat (nonces s' u)"
    and rcv: "\<And>recipient payer v s s' u.
      receive_value env recipient payer v s = Some s' \<Longrightarrow> unat (nonces s u) \<le> unat (nonces s' u)"
    unfolding external_code_never_lowers_nonces_def by blast+
  have "unat (nonces s u) \<le> unat (nonces s' u) \<and>
        (consumes c = Some u \<longrightarrow> unat (nonces s u) < unat (nonces s' u))"
  proof (cases c)
    case (Stake a v)
    with ok show ?thesis
      by (auto simp: stake_unfold split: if_splits)
  next
    case (WithdrawStake a v)
    with ok have w: "withdrawStake env a v s = Inr s'" by simp
    then have g: "\<not> entered s"
      by (auto simp: withdrawStake_def nonReentrant_Inr)
    from w obtain s2 where r: "receive_value env a (self env) v
            (pay (self env) a v
               (s\<lparr>entered := True, solverStakes := (solverStakes s)(a := solverStakes s a - v)\<rparr>))
          = Some s2"
      and s': "nonces s' = nonces s2"
      by (auto simp: withdrawStake_unfold [OF g] split: if_splits option.splits)
    from rcv [OF r, of u] s' WithdrawStake show ?thesis by simp
  next
    case (FulfillIntent a t u' tk am f d us ss)
    with ok have "fulfillIntent env a t u' tk am f d us ss s = Inr s'" by simp
    then obtain s2 where n: "unat (nonces s u') + 1 < 2 ^ 256"
      and r: "transferFrom env tk (self env) u' a (am + f)
             (s\<lparr>entered := True, nonces := (nonces s)(u' := nonces s u' + 1)\<rparr>) = Some s2"
      and s': "nonces s' = nonces s2"
      by (auto simp: fulfillIntent_Inr)
    from tok [OF r, of u] s'
    have "unat (((nonces s)(u' := nonces s u' + 1)) u) \<le> unat (nonces s' u)" by simp
    with unat_succ [OF n] FulfillIntent show ?thesis
      by (cases "u = u'") auto
  next
    case (CancelIntent a n sg)
    with ok show ?thesis
      by (auto simp: cancelIntent_unfold not_le unat_succ split: if_splits option.splits)
  qed
  then show "unat (nonces s u) \<le> unat (nonces s' u)"
    and "consumes c = Some u \<Longrightarrow> unat (nonces s u) < unat (nonces s' u)"
    by blast+
qed

lemma transact_nonces_mono:
  assumes "external_code_never_lowers_nonces env"
  shows "unat (nonces s u) \<le> unat (nonces (transact env c s) u)"
proof (cases "exec env c s")
  case (Inl e)
  then show ?thesis by (simp add: transact_def commit_def)
next
  case (Inr s')
  from exec_nonces_mono(1) [OF assms Inr] Inr show ?thesis
    by (simp add: transact_def commit_def)
qed

lemma perform_nonces_mono:
  assumes "external_code_never_lowers_nonces env"
  shows "unat (nonces s u) \<le> unat (nonces (perform env steps s) u)"
proof (induction steps arbitrary: s)
  case Nil
  show ?case by simp
next
  case (Cons x steps)
  show ?case
  proof (cases x)
    case (Call c)
    have "unat (nonces s u) \<le> unat (nonces (transact env c s) u)"
      by (rule transact_nonces_mono [OF assms])
    also have "\<dots> \<le> unat (nonces (perform env steps (transact env c s)) u)"
      by (rule Cons.IH)
    finally show ?thesis using Call by simp
  next
    case (Outside b t)
    have "unat (nonces s u) \<le> unat (nonces (perform env steps (s\<lparr>balance := b, tokens := t\<rparr>)) u)"
      using Cons.IH [of "s\<lparr>balance := b, tokens := t\<rparr>"] by simp
    then show ?thesis using Outside by simp
  qed
qed

subsection \<open>Deployments against code\<close>

lemma inert_simps [simp]:
  "keccak256 (inert env) = keccak256 env"
  "hashTypedDataV4 (inert env) = hashTypedDataV4 env"
  "ECDSA_recover (inert env) = ECDSA_recover env"
  "self (inert env) = self env"
  "transferFrom (inert env) token caller owner to v s = None"
  "receive_value (inert env) recipient payer v s = None"
  by (simp_all add: inert_def)

lemma with_code_simps [simp]:
  "keccak256 (with_code base tc rc) = keccak256 base"
  "hashTypedDataV4 (with_code base tc rc) = hashTypedDataV4 base"
  "ECDSA_recover (with_code base tc rc) = ECDSA_recover base"
  "self (with_code base tc rc) = self base"
  "transferFrom (with_code base tc rc) token caller owner to v s =
     map_option (\<lambda>steps. perform (inert base) steps s) (tc token caller owner to v s)"
  "receive_value (with_code base tc rc) recipient payer v s =
     map_option (\<lambda>steps. perform (inert base) steps s) (rc recipient payer v s)"
  by (simp_all add: with_code_def)

lemma inert_hashes [simp]:
  "hashIntent (inert env) = hashIntent env"
  "hashSolverCommit (inert env) = hashSolverCommit env"
  "hashCancel (inert env) = hashCancel env"
  by (simp_all add: fun_eq_iff hashIntent_def hashSolverCommit_def hashCancel_def
      INTENT_TYPEHASH_def SOLVER_COMMIT_TYPEHASH_def CANCEL_TYPEHASH_def)

lemma with_code_hashes [simp]:
  "hashIntent (with_code base tc rc) = hashIntent base"
  "hashSolverCommit (with_code base tc rc) = hashSolverCommit base"
  "hashCancel (with_code base tc rc) = hashCancel base"
  by (simp_all add: fun_eq_iff hashIntent_def hashSolverCommit_def hashCancel_def
      INTENT_TYPEHASH_def SOLVER_COMMIT_TYPEHASH_def CANCEL_TYPEHASH_def)

lemma inert_never_lowers: "external_code_never_lowers_nonces (inert env)"
  by (simp add: external_code_never_lowers_nonces_def)

lemma with_code_never_lowers: "external_code_never_lowers_nonces (with_code base tc rc)"
  unfolding external_code_never_lowers_nonces_def
  by (auto simp: perform_nonces_mono [OF inert_never_lowers])

text \<open>While the guard is set, a call never reaches the code of other contracts.\<close>

lemma exec_inert: "entered s \<Longrightarrow> exec (inert env) c s = exec env c s"
  by (cases c)
    (simp_all add: stake_unfold cancelIntent_unfold fulfillIntent_def withdrawStake_def
      nonReentrant_entered)

lemma with_code_built_with_nonce [simp]:
  "built_with_nonce (with_code base tc rc) = built_with_nonce base"
  by (simp add: fun_eq_iff built_with_nonce_def)

subsection \<open>The guard over transactions\<close>

lemma transact_entered:
  assumes "entered s"
  shows "entered (transact env c s)"
proof (cases c)
  case (Stake a v)
  with assms show ?thesis
    by (simp add: transact_def commit_def stake_unfold)
next
  case (WithdrawStake a v)
  with assms show ?thesis
    by (simp add: transact_def commit_def withdrawStake_def nonReentrant_entered)
next
  case (FulfillIntent a t u tk am f d us ss)
  with assms show ?thesis
    by (simp add: transact_def commit_def fulfillIntent_def nonReentrant_entered)
next
  case (CancelIntent a n sg)
  with assms show ?thesis
    by (simp add: transact_def commit_def cancelIntent_unfold split: option.splits)
qed

lemma transact_not_entered:
  assumes "\<not> entered s"
  shows "\<not> entered (transact env c s)"
proof (cases "exec env c s")
  case (Inl e)
  with assms show ?thesis by (simp add: transact_def commit_def)
next
  case (Inr s')
  then have "\<not> entered s'"
    using assms
    by (cases c)
      (auto simp: stake_unfold cancelIntent_unfold fulfillIntent_def withdrawStake_def
        nonReentrant_Inr split: if_splits option.splits)
  with Inr show ?thesis by (simp add: transact_def commit_def)
qed

lemma perform_entered: "entered s \<Longrightarrow> entered (perform env steps s)"
proof (induction steps arbitrary: s)
  case Nil
  then show ?case by simp
next
  case (Cons x steps)
  then show ?case by (cases x) (simp_all add: transact_entered)
qed

lemma perform_not_entered: "\<not> entered s \<Longrightarrow> \<not> entered (perform env steps s)"
proof (induction steps arbitrary: s)
  case Nil
  then show ?case by simp
next
  case (Cons x steps)
  then show ?case by (cases x) (simp_all add: transact_not_entered)
qed

subsection \<open>The instance\<close>

lemma chunks_abi_encode: "chunks (length ws) (abi_encode ws) = ws"
  by (induction ws) (simp_all add: abi_encode_def)

lemma test_keccak256_abi_encode: "test_keccak256 (abi_encode ws) = sum_list ws"
  by (simp add: test_keccak256_def length_abi_encode chunks_abi_encode)

lemma test_env_simps [simp]:
  "keccak256 test_env = test_keccak256"
  "hashTypedDataV4 test_env = (\<lambda>h. h + 1)"
  "ECDSA_recover test_env = test_recover"
  "self test_env = test_bridge"
  "transferFrom test_env = erc20_transferFrom"
  "receive_value test_env = accept_value"
  by (simp_all add: test_env_def)

lemma test_env_refusing_simps [simp]:
  "self test_env_refusing = test_bridge"
  "receive_value test_env_refusing = refuse_value test_solver"
  by (simp_all add: test_env_refusing_def)

lemma test_hashIntent:
  "hashIntent test_env user token amount fee nonce deadline =
     INTENT_TYPEHASH test_env + ucast user + ucast token + amount + fee + nonce + deadline + 1"
proof -
  have "keccak256 test_env = test_keccak256" "hashTypedDataV4 test_env = (\<lambda>h. h + 1)"
    by (simp_all add: test_env_def)
  then show ?thesis
    by (simp add: hashIntent_def test_keccak256_abi_encode)
qed

lemma test_hashSolverCommit:
  "hashSolverCommit test_env d = SOLVER_COMMIT_TYPEHASH test_env + d + 1"
  by (simp add: hashSolverCommit_def test_keccak256_abi_encode)

lemma test_hashCancel:
  "hashCancel test_env u n = CANCEL_TYPEHASH test_env + ucast u + n + 1"
  by (simp add: hashCancel_def test_keccak256_abi_encode)

lemma test_recover_sign:
  "test_recover digest (test_sign k d) =
     Some (if d = digest then test_signer k else test_signer (k + 128))"
  by (simp add: test_recover_def test_sign_def)

lemma test_addresses:
  "test_user = 4097" "test_solver = 4098" "test_token = 112" "test_bridge = 176"
  "test_signer 129 = 4225" "test_signer 130 = 4226"
  by (simp_all add: test_user_def test_solver_def test_signer_def test_token_def test_bridge_def)

lemma test_distinct [simp]:
  "test_user \<noteq> 0" "test_solver \<noteq> 0" "test_token \<noteq> 0" "test_bridge \<noteq> 0"
  "test_user \<noteq> test_solver" "test_solver \<noteq> test_user"
  "test_user \<noteq> test_bridge" "test_bridge \<noteq> test_user"
  "test_solver \<noteq> test_bridge" "test_bridge \<noteq> test_solver"
  "test_signer 129 \<noteq> test_user" "test_signer 130 \<noteq> test_solver"
  "test_signer 129 \<noteq> test_solver"
  by (simp_all add: test_addresses)

lemma test_world_simps [simp]:
  "nonces test_world = (\<lambda>_. 0)"
  "solverStakes test_world = (\<lambda>_. 0)(test_solver := MINIMUM_STAKE)"
  "entered test_world = False"
  "events test_world = []"
  "balance test_world = (\<lambda>_. 0)(test_bridge := MINIMUM_STAKE, test_solver := 3000000000000000000)"
  "tokens test_world = (\<lambda>_. \<lparr>balanceOf = (\<lambda>_. 0), allowance = (\<lambda>_ _. 0)\<rparr>)
        (test_token := \<lparr>balanceOf = (\<lambda>_. 0)(test_user := 1000),
                 allowance = (\<lambda>_ _. 0)(test_user := (\<lambda>_. 0)(test_bridge := 500))\<rparr>)"
  by (simp_all add: test_world_def)

lemma test_recover_userSignature [simp]:
  "test_recover (hashIntent test_env test_user test_token a 1 m 2000) (test_userSignature a n) =
     Some (if m = n then test_user else test_signer 129)"
  by (auto simp: test_userSignature_def test_recover_sign test_digest_def test_hashIntent
      test_user_def)

lemma test_recover_solverSignature [simp]:
  "test_recover (hashSolverCommit test_env (hashIntent test_env test_user test_token a 1 m 2000))
     (test_solverSignature a n) = Some (if m = n then test_solver else test_signer 130)"
  by (auto simp: test_solverSignature_def test_recover_sign test_digest_def test_hashIntent
      test_hashSolverCommit test_solver_def)

lemma test_recover_cancelSignature [simp]:
  "test_recover (hashCancel test_env test_user m) (test_cancelSignature n) =
     Some (if m = n then test_user else test_signer 129)"
  "test_recover (hashCancel test_env test_solver n) (test_cancelSignature n) = Some (test_signer 129)"
  by (auto simp: test_cancelSignature_def test_recover_sign test_hashCancel test_user_def
      test_solver_def test_signer_def)

lemma test_recover_malformed [simp]: "test_recover d [] = None"
  by (simp add: test_recover_def)

lemma test_fee [simp]: "\<not> (100 :: uint256) \<le> 1" "\<not> (600 :: uint256) \<le> 1"
  by (simp_all add: word_le_nat_alt)

lemma test_intent_valid [simp]: "intent_valid test_user test_token a 1 \<longleftrightarrow> 1 < a"
  by (auto simp: intent_valid_def word_gt_0)

lemma test_preconditions:
  "preconditions test_env test_solver 1000 test_user test_token a 1 2000
     (test_userSignature a 0) (test_solverSignature a 0) test_world \<longleftrightarrow> 1 < a"
  by (simp add: preconditions_def user_signed_def solver_signed_def)

lemma test_transfer:
  "erc20_transferFrom test_token test_bridge test_user test_solver 101
     (test_world\<lparr>entered := True, nonces := (\<lambda>_. 0)(test_user := 1)\<rparr>)
   = Some (test_settled\<lparr>entered := True, events := []\<rparr>)"
  by (simp add: erc20_transferFrom_def Let_def test_settled_def)

lemma test_settle:
  "fulfillIntent test_env test_solver 1000 test_user test_token 100 1 2000
     (test_userSignature 100 0) (test_solverSignature 100 0) test_world = Inr test_settled"
  by (simp add: fulfillIntent_unfold test_transfer) (simp add: test_settled_def)

lemma test_settled_simps [simp]:
  "nonces test_settled = (\<lambda>_. 0)(test_user := 1)"
  "solverStakes test_settled = (\<lambda>_. 0)(test_solver := MINIMUM_STAKE)"
  "entered test_settled = False"
  "events test_settled = [IntentFulfilled test_user test_solver test_token 100 1]"
  "balance test_settled = (\<lambda>_. 0)(test_bridge := MINIMUM_STAKE, test_solver := 3000000000000000000)"
  by (simp_all add: test_settled_def)

lemma test_cancel:
  "cancelIntent test_env test_user 1 (test_cancelSignature 1) test_settled =
     Inr (test_settled\<lparr>nonces := (\<lambda>_. 0)(test_user := 2)\<rparr>)"
  by (simp add: cancelIntent_unfold)

lemma test_env_keeps_nonces: "external_code_keeps_nonces test_env"
  by (auto simp: external_code_keeps_nonces_def erc20_transferFrom_def accept_value_def Let_def
      split: if_splits)

lemma test_env_code: "with_code test_env erc20_code plain_account = test_env"
proof -
  have "(\<lambda>token caller owner to v s.
          map_option (\<lambda>steps. perform (inert test_env) steps s) (erc20_code token caller owner to v s))
        = erc20_transferFrom"
    by (auto simp: fun_eq_iff erc20_code_def erc20_transferFrom_def Let_def)
  moreover have "(\<lambda>recipient payer v s.
          map_option (\<lambda>steps. perform (inert test_env) steps s) (plain_account recipient payer v s))
        = accept_value"
    by (simp add: fun_eq_iff plain_account_def accept_value_def)
  ultimately show ?thesis
    by (simp add: with_code_def test_env_def)
qed

lemma test_recover_own [simp]:
  "test_recover (hashIntent test_env test_user test_user 100 1 m 2000) test_own_userSignature =
     Some (if m = 0 then test_user else test_signer 129)"
  "test_recover (hashSolverCommit test_env (hashIntent test_env test_user test_user 100 1 m 2000))
     test_own_solverSignature = Some (if m = 0 then test_solver else test_signer 130)"
  by (auto simp: test_own_userSignature_def test_own_solverSignature_def test_recover_sign
      test_hashIntent test_hashSolverCommit test_user_def test_solver_def)

lemma test_settle_cancelling:
  "fulfillIntent test_env_cancelling test_solver 1000 test_user test_user 100 1 2000
     test_own_userSignature test_own_solverSignature test_world =
   Inr (test_world\<lparr>nonces := (\<lambda>_. 0)(test_user := 2),
          events := [IntentFulfilled test_user test_solver test_user 100 1]\<rparr>)"
  by (simp add: test_env_cancelling_def fulfillIntent_unfold test_cancelling_code_def
      transact_def commit_def cancelIntent_unfold)

lemma test_withdraw_restaking:
  "withdrawStake test_env_restaking test_solver MINIMUM_STAKE test_world =
   Inr (test_world\<lparr>events := [StakeAdded test_solver MINIMUM_STAKE MINIMUM_STAKE,
                              StakeWithdrawn test_solver MINIMUM_STAKE MINIMUM_STAKE]\<rparr>)"
  by (simp add: test_env_restaking_def withdrawStake_unfold restaking_account_def
      transact_def commit_def stake_unfold pay_def Let_def MINIMUM_STAKE_def)
    (auto simp: test_world_def MINIMUM_STAKE_def fun_eq_iff)

section \<open>The claims\<close>

text \<open>
  C1 (as amended). The contract is deployed against any code of tokens and accounts. After
  an intent has been settled, a second call of fulfillIntent with the same arguments by
  the same caller never succeeds, right away or after any further calls of the contract
  and changes outside it, provided the user signature verifies with no nonce other than
  the one the intent was settled with. The second call never fails with "nonce mismatch"
  (fulfillIntent compares no nonce: it rebuilds the digest with the stored one). Made at
  top level, it fails at the user signature check, with "Invalid user sig" or the ECDSA
  library's revert, unless the deadline or the bond check stops it earlier; made while the
  guard is set, that is from within a call of fulfillIntent or withdrawStake, it fails
  with ReentrancyGuardReentrantCall.
\<close>

theorem fulfillIntent_replay:
  assumes first: "fulfillIntent (with_code base tc rc) msg_sender now user token amount fee deadline
        usig ssig s = Inr s1"
    and bound: "built_with_nonce (with_code base tc rc) user token amount fee deadline usig
        (nonces s user)"
  shows "(\<exists>e. fulfillIntent (with_code base tc rc) msg_sender later user token amount fee deadline
            usig ssig (perform (with_code base tc rc) steps s1) = Inl e \<and>
          e \<noteq> Error ''nonce mismatch'' \<and>
          (later \<le> deadline \<and>
           MINIMUM_STAKE \<le> solverStakes (perform (with_code base tc rc) steps s1) msg_sender \<longrightarrow>
             e = Error ''Invalid user sig'' \<or> e = ECDSAInvalidSignature)) \<and>
    (\<forall>t. entered t \<longrightarrow>
       fulfillIntent (with_code base tc rc) msg_sender later user token amount fee deadline
         usig ssig t = Inl ReentrancyGuardReentrantCall)"
proof -
  let ?env = "with_code base tc rc"
  let ?c = "FulfillIntent msg_sender now user token amount fee deadline usig ssig"
  let ?t = "perform ?env steps s1"
  from first have e: "exec ?env ?c s = Inr s1" by simp
  from first have g1: "\<not> entered s1" and v: "intent_valid user token amount fee"
    by (auto simp: fulfillIntent_Inr preconditions_def)
  then have g: "\<not> entered ?t"
    by (simp add: perform_not_entered)
  have "unat (nonces s user) < unat (nonces s1 user)"
    by (rule exec_nonces_mono(2) [OF with_code_never_lowers e]) simp
  also have "\<dots> \<le> unat (nonces ?t user)"
    by (rule perform_nonces_mono [OF with_code_never_lowers])
  finally have "nonces ?t user \<noteq> nonces s user" by auto
  with bound have unsigned: "ECDSA_recover ?env
      (hashIntent ?env user token amount fee (nonces ?t user) deadline) usig \<noteq> Some user"
    unfolding built_with_nonce_def by blast
  from v have ok: "user \<noteq> 0" "token \<noteq> 0" "amount \<noteq> 0" "\<not> amount \<le> fee"
    by (auto simp: intent_valid_def)
  have top: "\<exists>e. fulfillIntent ?env msg_sender later user token amount fee deadline usig ssig ?t = Inl e \<and>
          e \<noteq> Error ''nonce mismatch'' \<and>
          (later \<le> deadline \<and> MINIMUM_STAKE \<le> solverStakes ?t msg_sender \<longrightarrow>
             e = Error ''Invalid user sig'' \<or> e = ECDSAInvalidSignature)"
    using unsigned ok unfolding fulfillIntent_unfold [OF g]
    by (auto split: option.splits)
  have nested: "\<forall>t. entered t \<longrightarrow>
       fulfillIntent ?env msg_sender later user token amount fee deadline usig ssig t
         = Inl ReentrancyGuardReentrantCall"
    by (simp add: fulfillIntent_def nonReentrant_entered)
  from top nested show ?thesis by blast
qed

text \<open>
  The settled intent of the instance is presented again at time 1500, after the solver
  has made another deposit: over the digest with nonce 1 the old signature recovers an
  unrelated address. Presented while the guard is set, it is refused by the guard.
\<close>

theorem fulfillIntent_replay_witness:
  "fulfillIntent test_env test_solver 1000 test_user test_token 100 1 2000
     (test_userSignature 100 0) (test_solverSignature 100 0) test_world = Inr test_settled \<and>
   built_with_nonce test_env test_user test_token 100 1 2000 (test_userSignature 100 0)
     (nonces test_world test_user) \<and>
   fulfillIntent test_env test_solver 1500 test_user test_token 100 1 2000
     (test_userSignature 100 0) (test_solverSignature 100 0)
     (perform test_env [Call (Stake test_solver MINIMUM_STAKE)] test_settled)
     = Inl (Error ''Invalid user sig'') \<and>
   entered (test_settled\<lparr>entered := True\<rparr>) \<and>
   fulfillIntent test_env test_solver 1500 test_user test_token 100 1 2000
     (test_userSignature 100 0) (test_solverSignature 100 0) (test_settled\<lparr>entered := True\<rparr>)
     = Inl ReentrancyGuardReentrantCall"
proof -
  let ?env = "with_code test_env erc20_code plain_account"
  have first: "fulfillIntent ?env test_solver 1000 test_user test_token 100 1 2000
     (test_userSignature 100 0) (test_solverSignature 100 0) test_world = Inr test_settled"
    by (simp add: test_env_code test_settle)
  have bound: "built_with_nonce ?env test_user test_token 100 1 2000 (test_userSignature 100 0)
     (nonces test_world test_user)"
    by (simp add: built_with_nonce_def)
  have after: "perform test_env [Call (Stake test_solver MINIMUM_STAKE)] test_settled =
      (pay test_solver test_bridge MINIMUM_STAKE test_settled)
        \<lparr>solverStakes := (\<lambda>_. 0)(test_solver := 2000000000000000000),
         events := [IntentFulfilled test_user test_solver test_token 100 1,
                    StakeAdded test_solver MINIMUM_STAKE 2000000000000000000]\<rparr>"
    by (simp add: transact_def commit_def stake_unfold MINIMUM_STAKE_def)
  note replay = fulfillIntent_replay [OF first bound, of 1500 "[Call (Stake test_solver MINIMUM_STAKE)]",
      unfolded test_env_code]
  from replay obtain e where 1: "fulfillIntent test_env test_solver 1500 test_user test_token 100 1 2000
       (test_userSignature 100 0) (test_solverSignature 100 0)
       (perform test_env [Call (Stake test_solver MINIMUM_STAKE)] test_settled) = Inl e"
    and 2: "1500 \<le> (2000 :: uint256) \<and>
       MINIMUM_STAKE \<le> solverStakes (perform test_env [Call (Stake test_solver MINIMUM_STAKE)] test_settled)
         test_solver \<longrightarrow> e = Error ''Invalid user sig'' \<or> e = ECDSAInvalidSignature"
    by blast
  have top: "fulfillIntent test_env test_solver 1500 test_user test_token 100 1 2000
       (test_userSignature 100 0) (test_solverSignature 100 0)
       (perform test_env [Call (Stake test_solver MINIMUM_STAKE)] test_settled)
     = Inl (Error ''Invalid user sig'')"
    using 1 2 unfolding after
    by (simp add: fulfillIntent_unfold MINIMUM_STAKE_def)
  have g: "entered (test_settled\<lparr>entered := True\<rparr>)" by simp
  with replay have nested: "fulfillIntent test_env test_solver 1500 test_user test_token 100 1 2000
     (test_userSignature 100 0) (test_solverSignature 100 0) (test_settled\<lparr>entered := True\<rparr>)
     = Inl ReentrancyGuardReentrantCall"
    by blast
  from bound have bound': "built_with_nonce test_env test_user test_token 100 1 2000
     (test_userSignature 100 0) (nonces test_world test_user)"
    by simp
  from test_settle bound' top g nested show ?thesis by blast
qed

text \<open>The same call twice in the instance: the second one fails with "Invalid user sig".\<close>

theorem fulfillIntent_replay_counterexample:
  "fulfillIntent test_env test_solver 1000 test_user test_token 100 1 2000
     (test_userSignature 100 0) (test_solverSignature 100 0) test_world = Inr test_settled \<and>
   fulfillIntent test_env test_solver 1000 test_user test_token 100 1 2000
     (test_userSignature 100 0) (test_solverSignature 100 0) test_settled
     = Inl (Error ''Invalid user sig'') \<and>
   Error ''Invalid user sig'' \<noteq> Error ''nonce mismatch''"
  by (simp add: test_settle fulfillIntent_unfold)

text \<open>
  C2 (as amended). In a call that is not re-entrant, fulfillIntent checks in this order,
  and the first check that fails decides the failure: (1) user and token non-null,
  amount greater than 0 and greater than fee, else one of "zero user", "zero token",
  "zero amount", "fee >= amount" (InvalidIntent); (2) block.timestamp at most deadline, else
  "expired"; (3) the caller's stake at least MINIMUM_STAKE, else "Not staked"; (4) the user
  signature over the intent digest with the user's stored nonce: "Invalid user sig" when a
  signer other than the user is recovered, the ECDSA library's own revert when none is;
  (5) the same for the solver signature over the commitment digest, against the caller,
  with "Invalid solver sig". So an intent that passes (1) with a deadline in the past fails
  with "expired" whatever the signatures are, and one that passes (1) and (2) from a caller
  bonded below MINIMUM_STAKE fails with "Not staked" whatever the signatures are.
\<close>

theorem fulfillIntent_check_order:
  assumes "\<not> entered s"
  shows
    "(\<not> intent_valid user token amount fee \<longrightarrow>
        fulfillIntent env msg_sender now user token amount fee deadline usig ssig s \<in>
          {Inl (Error ''zero user''), Inl (Error ''zero token''), Inl (Error ''zero amount''),
           Inl (Error ''fee >= amount'')}) \<and>
     (intent_valid user token amount fee \<and> deadline < now \<longrightarrow>
        fulfillIntent env msg_sender now user token amount fee deadline usig ssig s =
          Inl (Error ''expired'')) \<and>
     (intent_valid user token amount fee \<and> now \<le> deadline \<and>
      solverStakes s msg_sender < MINIMUM_STAKE \<longrightarrow>
        fulfillIntent env msg_sender now user token amount fee deadline usig ssig s =
          Inl (Error ''Not staked'')) \<and>
     (intent_valid user token amount fee \<and> now \<le> deadline \<and>
      MINIMUM_STAKE \<le> solverStakes s msg_sender \<and>
      ECDSA_recover env (hashIntent env user token amount fee (nonces s user) deadline) usig = Some a \<and>
      a \<noteq> user \<longrightarrow>
        fulfillIntent env msg_sender now user token amount fee deadline usig ssig s =
          Inl (Error ''Invalid user sig'')) \<and>
     (intent_valid user token amount fee \<and> now \<le> deadline \<and>
      MINIMUM_STAKE \<le> solverStakes s msg_sender \<and>
      ECDSA_recover env (hashIntent env user token amount fee (nonces s user) deadline) usig = None \<longrightarrow>
        fulfillIntent env msg_sender now user token amount fee deadline usig ssig s =
          Inl ECDSAInvalidSignature) \<and>
     (intent_valid user token amount fee \<and> now \<le> deadline \<and>
      MINIMUM_STAKE \<le> solverStakes s msg_sender \<and>
      user_signed env user token amount fee deadline usig s \<and>
      ECDSA_recover env
        (hashSolverCommit env (hashIntent env user token amount fee (nonces s user) deadline)) ssig
        = Some b \<and>
      b \<noteq> msg_sender \<longrightarrow>
        fulfillIntent env msg_sender now user token amount fee deadline usig ssig s =
          Inl (Error ''Invalid solver sig'')) \<and>
     (intent_valid user token amount fee \<and> now \<le> deadline \<and>
      MINIMUM_STAKE \<le> solverStakes s msg_sender \<and>
      user_signed env user token amount fee deadline usig s \<and>
      ECDSA_recover env
        (hashSolverCommit env (hashIntent env user token amount fee (nonces s user) deadline)) ssig
        = None \<longrightarrow>
        fulfillIntent env msg_sender now user token amount fee deadline usig ssig s =
          Inl ECDSAInvalidSignature)"
  unfolding fulfillIntent_unfold [OF assms] intent_valid_def user_signed_def
  by (auto simp: not_less not_le word_gt_0)

text \<open>One call of the instance for each failure, in the order of the checks.\<close>

theorem fulfillIntent_check_order_witness:
  "\<not> entered test_world \<and>
   fulfillIntent test_env test_solver 1000 test_user test_token 100 100 2000
     (test_userSignature 100 0) (test_solverSignature 100 0) test_world
     \<in> {Inl (Error ''zero user''), Inl (Error ''zero token''), Inl (Error ''zero amount''),
        Inl (Error ''fee >= amount'')} \<and>
   fulfillIntent test_env test_solver 3000 test_user test_token 100 1 2000
     (test_userSignature 100 0) (test_solverSignature 100 0) test_world = Inl (Error ''expired'') \<and>
   fulfillIntent test_env test_user 1000 test_user test_token 100 1 2000
     (test_userSignature 100 0) (test_solverSignature 100 0) test_world = Inl (Error ''Not staked'') \<and>
   fulfillIntent test_env test_solver 1000 test_user test_token 100 1 2000
     (test_userSignature 100 7) (test_solverSignature 100 0) test_world
     = Inl (Error ''Invalid user sig'') \<and>
   fulfillIntent test_env test_solver 1000 test_user test_token 100 1 2000
     [] (test_solverSignature 100 0) test_world = Inl ECDSAInvalidSignature \<and>
   fulfillIntent test_env test_solver 1000 test_user test_token 100 1 2000
     (test_userSignature 100 0) (test_solverSignature 100 7) test_world
     = Inl (Error ''Invalid solver sig'')"
proof -
  have g: "\<not> entered test_world" by simp
  note order = fulfillIntent_check_order [OF g, where env = test_env and user = test_user
      and token = test_token and deadline = 2000]
  have invalid: "fulfillIntent test_env test_solver 1000 test_user test_token 100 100 2000
     (test_userSignature 100 0) (test_solverSignature 100 0) test_world
     \<in> {Inl (Error ''zero user''), Inl (Error ''zero token''), Inl (Error ''zero amount''),
        Inl (Error ''fee >= amount'')}"
    using order [where amount = 100 and fee = 100 and msg_sender = test_solver and now = 1000
        and usig = "test_userSignature 100 0" and ssig = "test_solverSignature 100 0"]
    by (simp add: intent_valid_def)
  have expired: "fulfillIntent test_env test_solver 3000 test_user test_token 100 1 2000
     (test_userSignature 100 0) (test_solverSignature 100 0) test_world = Inl (Error ''expired'')"
    using order [where amount = 100 and fee = 1 and msg_sender = test_solver and now = 3000
        and usig = "test_userSignature 100 0" and ssig = "test_solverSignature 100 0"]
    by simp
  have unbonded: "fulfillIntent test_env test_user 1000 test_user test_token 100 1 2000
     (test_userSignature 100 0) (test_solverSignature 100 0) test_world = Inl (Error ''Not staked'')"
    using order [where amount = 100 and fee = 1 and msg_sender = test_user and now = 1000
        and usig = "test_userSignature 100 0" and ssig = "test_solverSignature 100 0"]
    by simp
  have forged: "fulfillIntent test_env test_solver 1000 test_user test_token 100 1 2000
     (test_userSignature 100 7) (test_solverSignature 100 0) test_world
     = Inl (Error ''Invalid user sig'')"
    using order [where amount = 100 and fee = 1 and msg_sender = test_solver and now = 1000
        and usig = "test_userSignature 100 7" and ssig = "test_solverSignature 100 0"
        and a = "test_signer 129"]
    by simp
  have malformed: "fulfillIntent test_env test_solver 1000 test_user test_token 100 1 2000
     [] (test_solverSignature 100 0) test_world = Inl ECDSAInvalidSignature"
    using order [where amount = 100 and fee = 1 and msg_sender = test_solver and now = 1000
        and usig = "[]" and ssig = "test_solverSignature 100 0"]
    by simp
  have uncommitted: "fulfillIntent test_env test_solver 1000 test_user test_token 100 1 2000
     (test_userSignature 100 0) (test_solverSignature 100 7) test_world
     = Inl (Error ''Invalid solver sig'')"
    using order [where amount = 100 and fee = 1 and msg_sender = test_solver and now = 1000
        and usig = "test_userSignature 100 0" and ssig = "test_solverSignature 100 7"
        and b = "test_signer 130"]
    by (simp add: user_signed_def)
  from g invalid expired unbonded forged malformed uncommitted show ?thesis by blast
qed

text \<open>
  The claim as stated gives IntentExpired to every input with a deadline in the past and
  SolverNotBonded to every caller bonded below MINIMUM_STAKE. With the deadline in the
  past, a null user fails with "zero user" and an unbonded caller with "expired"; and an
  empty user signature fails inside the ECDSA library, not with "Invalid user sig".
\<close>

theorem fulfillIntent_expired_counterexample:
  "(2000 :: uint256) < 3000 \<and>
   fulfillIntent test_env test_solver 3000 0 test_token 100 1 2000
     (test_userSignature 100 0) (test_solverSignature 100 0) test_world = Inl (Error ''zero user'') \<and>
   solverStakes test_world test_user < MINIMUM_STAKE \<and>
   fulfillIntent test_env test_user 3000 test_user test_token 100 1 2000
     (test_userSignature 100 0) (test_solverSignature 100 0) test_world = Inl (Error ''expired'') \<and>
   fulfillIntent test_env test_solver 1000 test_user test_token 100 1 2000
     [] (test_solverSignature 100 0) test_world = Inl ECDSAInvalidSignature"
  by (simp add: fulfillIntent_unfold)

text \<open>
  C3 (as amended). When every precondition of fulfillIntent holds, in a call that is not
  re-entrant and with a nonce and a sum amount + fee that fit 256 bits, the call
  increments the user's nonce, then calls the token's transferFrom for amount + fee from
  the user to the caller, in the state that already holds the incremented nonce, then
  emits one IntentFulfilled. When that transfer succeeds these are exactly its effects;
  when the token refuses it, the call reverts. For a standard token whose ledger gives
  the user the balance and the contract the allowance, the result is the state with the
  nonce one higher, amount + fee moved from the user to the caller out of the allowance,
  and the event appended, and nothing else changed.
\<close>

theorem fulfillIntent_effects:
  assumes "\<not> entered s"
    and "preconditions env msg_sender now user token amount fee deadline usig ssig s"
    and "unat (nonces s user) + 1 < 2 ^ 256"
    and "unat amount + unat fee < 2 ^ 256"
  shows "fulfillIntent env msg_sender now user token amount fee deadline usig ssig s =
      (case transferFrom env token (self env) user msg_sender (amount + fee)
              (s\<lparr>entered := True, nonces := (nonces s)(user := nonces s user + 1)\<rparr>) of
         None \<Rightarrow> Inl (SafeERC20FailedOperation token)
       | Some s2 \<Rightarrow>
           Inr (s2\<lparr>events := events s2 @ [IntentFulfilled user msg_sender token amount fee],
                  entered := False\<rparr>)) \<and>
    (transferFrom env = erc20_transferFrom \<and>
     amount + fee \<le> allowance (tokens s token) user (self env) \<and>
     amount + fee \<le> balanceOf (tokens s token) user \<longrightarrow>
       fulfillIntent env msg_sender now user token amount fee deadline usig ssig s =
         Inr (s\<lparr>nonces := (nonces s)(user := nonces s user + 1),
               tokens := (tokens s)(token :=
                 \<lparr>balanceOf =
                    (let b = (balanceOf (tokens s token))
                               (user := balanceOf (tokens s token) user - (amount + fee))
                     in b(msg_sender := b msg_sender + (amount + fee))),
                  allowance = (allowance (tokens s token))
                    (user := (allowance (tokens s token) user)
                       (self env := allowance (tokens s token) user (self env) - (amount + fee)))\<rparr>),
               events := events s @ [IntentFulfilled user msg_sender token amount fee]\<rparr>))"
proof -
  have general: "fulfillIntent env msg_sender now user token amount fee deadline usig ssig s =
      (case transferFrom env token (self env) user msg_sender (amount + fee)
              (s\<lparr>entered := True, nonces := (nonces s)(user := nonces s user + 1)\<rparr>) of
         None \<Rightarrow> Inl (SafeERC20FailedOperation token)
       | Some s2 \<Rightarrow>
           Inr (s2\<lparr>events := events s2 @ [IntentFulfilled user msg_sender token amount fee],
                  entered := False\<rparr>))"
    using assms(2-)
    unfolding fulfillIntent_unfold [OF assms(1)] preconditions_def intent_valid_def user_signed_def
      solver_signed_def
    by (auto simp: not_less not_le word_gt_0)
  have standard: "fulfillIntent env msg_sender now user token amount fee deadline usig ssig s =
         Inr (s\<lparr>nonces := (nonces s)(user := nonces s user + 1),
               tokens := (tokens s)(token :=
                 \<lparr>balanceOf =
                    (let b = (balanceOf (tokens s token))
                               (user := balanceOf (tokens s token) user - (amount + fee))
                     in b(msg_sender := b msg_sender + (amount + fee))),
                  allowance = (allowance (tokens s token))
                    (user := (allowance (tokens s token) user)
                       (self env := allowance (tokens s token) user (self env) - (amount + fee)))\<rparr>),
               events := events s @ [IntentFulfilled user msg_sender token amount fee]\<rparr>)"
    if "transferFrom env = erc20_transferFrom"
      and "amount + fee \<le> allowance (tokens s token) user (self env)"
      and "amount + fee \<le> balanceOf (tokens s token) user"
    using that assms(1) unfolding general
    by (simp add: erc20_transferFrom_def Let_def not_less)
  from general standard show ?thesis by blast
qed

text \<open>
  The settlement of the instance: the nonce goes from 0 to 1, 101 units move from the
  user to the solver out of the allowance of the contract, and one event is emitted.
\<close>

theorem fulfillIntent_effects_witness:
  "\<not> entered test_world \<and>
   preconditions test_env test_solver 1000 test_user test_token 100 1 2000
     (test_userSignature 100 0) (test_solverSignature 100 0) test_world \<and>
   fulfillIntent test_env test_solver 1000 test_user test_token 100 1 2000
     (test_userSignature 100 0) (test_solverSignature 100 0) test_world = Inr test_settled \<and>
   nonces test_settled test_user = 1 \<and>
   balanceOf (tokens test_settled test_token) test_user = 899 \<and>
   balanceOf (tokens test_settled test_token) test_solver = 101 \<and>
   events test_settled = [IntentFulfilled test_user test_solver test_token 100 1]"
proof -
  have g: "\<not> entered test_world" by simp
  have p: "preconditions test_env test_solver 1000 test_user test_token 100 1 2000
     (test_userSignature 100 0) (test_solverSignature 100 0) test_world"
    by (simp add: test_preconditions)
  have n: "unat (nonces test_world test_user) + 1 < 2 ^ 256" by simp
  have a: "unat (100 :: uint256) + unat (1 :: uint256) < 2 ^ 256" by simp
  have "fulfillIntent test_env test_solver 1000 test_user test_token 100 1 2000
     (test_userSignature 100 0) (test_solverSignature 100 0) test_world = Inr test_settled"
    using fulfillIntent_effects [OF g p n a]
    by (simp add: test_transfer)
  then show ?thesis
    using g p by (simp add: test_settled_def)
qed

text \<open>
  Every precondition holds for the intent of 600 units, but the user has approved the
  contract for 500 only: the token refuses the transfer and the call has no effect.
\<close>

theorem fulfillIntent_unapproved_counterexample:
  "\<not> entered test_world \<and>
   preconditions test_env test_solver 1000 test_user test_token 600 1 2000
     (test_userSignature 600 0) (test_solverSignature 600 0) test_world \<and>
   fulfillIntent test_env test_solver 1000 test_user test_token 600 1 2000
     (test_userSignature 600 0) (test_solverSignature 600 0) test_world =
   Inl (SafeERC20FailedOperation test_token)"
  by (simp add: test_preconditions fulfillIntent_unfold erc20_transferFrom_def Let_def)

text \<open>
  C4. fulfillIntent is atomic. A call that reverts, for whatever reason, leaves the
  whole state as it was: the nonce counters, the stakes and the token balances. This is so
  whenever a precondition fails. And a call that changes anything has passed every
  precondition (the bond and both signature checks among them), has had the token accept
  the transfer, and leaves exactly the state after that transfer with the event added:
  there is no nonce advance without the transfer and no transfer without the checks.
\<close>

theorem fulfillIntent_atomic:
  "(fulfillIntent env msg_sender now user token amount fee deadline usig ssig s = Inl e \<longrightarrow>
      transact env (FulfillIntent msg_sender now user token amount fee deadline usig ssig) s = s) \<and>
   (\<not> preconditions env msg_sender now user token amount fee deadline usig ssig s \<longrightarrow>
      transact env (FulfillIntent msg_sender now user token amount fee deadline usig ssig) s = s) \<and>
   (transact env (FulfillIntent msg_sender now user token amount fee deadline usig ssig) s \<noteq> s \<longrightarrow>
      preconditions env msg_sender now user token amount fee deadline usig ssig s \<and>
      (\<exists>s2. transferFrom env token (self env) user msg_sender (amount + fee)
              (s\<lparr>entered := True, nonces := (nonces s)(user := nonces s user + 1)\<rparr>) = Some s2 \<and>
            transact env (FulfillIntent msg_sender now user token amount fee deadline usig ssig) s =
              s2\<lparr>events := events s2 @ [IntentFulfilled user msg_sender token amount fee],
                 entered := False\<rparr>))"
proof -
  let ?r = "fulfillIntent env msg_sender now user token amount fee deadline usig ssig s"
  let ?t = "transact env (FulfillIntent msg_sender now user token amount fee deadline usig ssig) s"
  have t: "?t = commit s ?r" by (simp add: transact_def)
  have failed: "?t = s" if "?r = Inl e'" for e'
    using that by (simp add: t commit_def)
  have succeeded: "?t = s'" if "?r = Inr s'" for s'
    using that by (simp add: t commit_def)
  have a: "?r = Inl e \<longrightarrow> ?t = s" using failed by blast
  have b: "\<not> preconditions env msg_sender now user token amount fee deadline usig ssig s \<longrightarrow> ?t = s"
  proof
    assume n: "\<not> preconditions env msg_sender now user token amount fee deadline usig ssig s"
    show "?t = s"
    proof (cases ?r)
      case (Inl e') then show ?thesis by (rule failed)
    next
      case (Inr s') with n show ?thesis by (simp add: fulfillIntent_Inr)
    qed
  qed
  have c: "?t \<noteq> s \<longrightarrow>
      preconditions env msg_sender now user token amount fee deadline usig ssig s \<and>
      (\<exists>s2. transferFrom env token (self env) user msg_sender (amount + fee)
              (s\<lparr>entered := True, nonces := (nonces s)(user := nonces s user + 1)\<rparr>) = Some s2 \<and>
            ?t = s2\<lparr>events := events s2 @ [IntentFulfilled user msg_sender token amount fee],
                 entered := False\<rparr>)"
  proof
    assume ne: "?t \<noteq> s"
    then obtain s' where r: "?r = Inr s'"
      using failed by (cases ?r) auto
    then have "?t = s'" by (rule succeeded)
    with r show "preconditions env msg_sender now user token amount fee deadline usig ssig s \<and>
      (\<exists>s2. transferFrom env token (self env) user msg_sender (amount + fee)
              (s\<lparr>entered := True, nonces := (nonces s)(user := nonces s user + 1)\<rparr>) = Some s2 \<and>
            ?t = s2\<lparr>events := events s2 @ [IntentFulfilled user msg_sender token amount fee],
                 entered := False\<rparr>)"
      by (auto simp: fulfillIntent_Inr)
  qed
  from a b c show ?thesis by blast
qed

text \<open>
  In the instance the call at time 3000, after the deadline, changes nothing; the call at
  time 1000 changes the state, and its preconditions hold and the token accepted.
\<close>

theorem fulfillIntent_atomic_witness:
  "\<not> preconditions test_env test_solver 3000 test_user test_token 100 1 2000
       (test_userSignature 100 0) (test_solverSignature 100 0) test_world \<and>
   transact test_env (FulfillIntent test_solver 3000 test_user test_token 100 1 2000
       (test_userSignature 100 0) (test_solverSignature 100 0)) test_world = test_world \<and>
   transact test_env (FulfillIntent test_solver 1000 test_user test_token 100 1 2000
       (test_userSignature 100 0) (test_solverSignature 100 0)) test_world \<noteq> test_world \<and>
   preconditions test_env test_solver 1000 test_user test_token 100 1 2000
       (test_userSignature 100 0) (test_solverSignature 100 0) test_world \<and>
   erc20_transferFrom test_token test_bridge test_user test_solver 101
       (test_world\<lparr>entered := True, nonces := (\<lambda>_. 0)(test_user := 1)\<rparr>)
     = Some (test_settled\<lparr>entered := True, events := []\<rparr>)"
proof -
  have late: "\<not> preconditions test_env test_solver 3000 test_user test_token 100 1 2000
       (test_userSignature 100 0) (test_solverSignature 100 0) test_world"
    by (simp add: preconditions_def)
  have kept: "transact test_env (FulfillIntent test_solver 3000 test_user test_token 100 1 2000
       (test_userSignature 100 0) (test_solverSignature 100 0)) test_world = test_world"
    using late fulfillIntent_atomic [of test_env test_solver 3000 test_user test_token 100 1 2000
        "test_userSignature 100 0" "test_solverSignature 100 0" test_world]
    by blast
  have "nonces (transact test_env (FulfillIntent test_solver 1000 test_user test_token 100 1 2000
       (test_userSignature 100 0) (test_solverSignature 100 0)) test_world) test_user = 1"
    by (simp add: transact_def commit_def test_settle)
  then have changed: "transact test_env (FulfillIntent test_solver 1000 test_user test_token 100 1 2000
       (test_userSignature 100 0) (test_solverSignature 100 0)) test_world \<noteq> test_world"
    by auto
  then have pre: "preconditions test_env test_solver 1000 test_user test_token 100 1 2000
       (test_userSignature 100 0) (test_solverSignature 100 0) test_world"
    using fulfillIntent_atomic [of test_env test_solver 1000 test_user test_token 100 1 2000
        "test_userSignature 100 0" "test_solverSignature 100 0" test_world]
    by blast
  from late kept changed pre test_transfer show ?thesis by blast
qed



text \<open>
  C6 (as amended). The claim gives every successful settlement an increase of the user's
  nonce by exactly 1. The token's code runs in the middle of the settlement and
  cancelIntent is not guarded, so a cancellation made from there raises the same nonce
  once more. What holds, against any code of tokens and accounts: over any calls of the
  contract and changes outside it no nonce ever decreases; a successful cancelIntent
  raises the caller's nonce by exactly 1 and leaves every other nonce; a successful stake
  changes no nonce; a successful fulfillIntent raises the user's nonce by at least 1.
  And where the code of other contracts leaves the nonce counters as they are, a
  successful fulfillIntent raises the user's nonce by exactly 1 and no other nonce, and
  a successful withdrawStake changes none; no increment wraps around.
\<close>

theorem nonce_counter:
  "(\<forall>u. unat (nonces s u) \<le> unat (nonces (perform (with_code base tc rc) steps s) u)) \<and>
   (cancelIntent env msg_sender expectedNonce sig s = Inr s' \<longrightarrow>
      nonces s' = (nonces s)(msg_sender := nonces s msg_sender + 1) \<and>
      unat (nonces s' msg_sender) = unat (nonces s msg_sender) + 1) \<and>
   (stake env msg_sender msg_value s = Inr s' \<longrightarrow> nonces s' = nonces s) \<and>
   (exec (with_code base tc rc) c s = Inr s' \<longrightarrow>
      (\<forall>u. consumes c = Some u \<longrightarrow> unat (nonces s u) + 1 \<le> unat (nonces s' u))) \<and>
   (external_code_keeps_nonces env \<and> exec env c s = Inr s' \<longrightarrow>
      nonces s' = (case consumes c of None \<Rightarrow> nonces s
                   | Some u \<Rightarrow> (nonces s)(u := nonces s u + 1)) \<and>
      (\<forall>u. consumes c = Some u \<longrightarrow> unat (nonces s' u) = unat (nonces s u) + 1))"
proof -
  have mono: "\<forall>u. unat (nonces s u) \<le> unat (nonces (perform (with_code base tc rc) steps s) u)"
    by (simp add: perform_nonces_mono [OF with_code_never_lowers])
  have cancel: "cancelIntent env msg_sender expectedNonce sig s = Inr s' \<longrightarrow>
      nonces s' = (nonces s)(msg_sender := nonces s msg_sender + 1) \<and>
      unat (nonces s' msg_sender) = unat (nonces s msg_sender) + 1"
    by (auto simp: cancelIntent_unfold not_le unat_succ split: if_splits option.splits)
  have deposit: "stake env msg_sender msg_value s = Inr s' \<longrightarrow> nonces s' = nonces s"
    by (auto simp: stake_unfold split: if_splits)
  have least: "exec (with_code base tc rc) c s = Inr s' \<longrightarrow>
      (\<forall>u. consumes c = Some u \<longrightarrow> unat (nonces s u) + 1 \<le> unat (nonces s' u))"
    using exec_nonces_mono(2) [OF with_code_never_lowers, of base tc rc c s s']
    by (simp add: Suc_le_eq)
  have exact: "external_code_keeps_nonces env \<and> exec env c s = Inr s' \<longrightarrow>
      nonces s' = (case consumes c of None \<Rightarrow> nonces s
                   | Some u \<Rightarrow> (nonces s)(u := nonces s u + 1)) \<and>
      (\<forall>u. consumes c = Some u \<longrightarrow> unat (nonces s' u) = unat (nonces s u) + 1)"
  proof
    assume "external_code_keeps_nonces env \<and> exec env c s = Inr s'"
    then have keeps: "external_code_keeps_nonces env" and ok: "exec env c s = Inr s'"
      by simp_all
    from exec_nonces [OF keeps ok] unat_succ
    show "nonces s' = (case consumes c of None \<Rightarrow> nonces s
                   | Some u \<Rightarrow> (nonces s)(u := nonces s u + 1)) \<and>
      (\<forall>u. consumes c = Some u \<longrightarrow> unat (nonces s' u) = unat (nonces s u) + 1)"
      by auto
  qed
  show ?thesis
    by (rule conjI [OF mono conjI [OF cancel conjI [OF deposit conjI [OF least exact]]]])
qed

text \<open>
  The instance, with its standard token: the settlement takes the user's nonce from 0 to
  1; after the settlement, a deposit and a cancellation, the nonce is 2.
\<close>

theorem nonce_counter_witness:
  "external_code_keeps_nonces test_env \<and>
   exec test_env (FulfillIntent test_solver 1000 test_user test_token 100 1 2000
       (test_userSignature 100 0) (test_solverSignature 100 0)) test_world = Inr test_settled \<and>
   nonces test_settled = (nonces test_world)(test_user := nonces test_world test_user + 1) \<and>
   unat (nonces test_settled test_user) = unat (nonces test_world test_user) + 1 \<and>
   unat (nonces test_world test_user) + 1 \<le> unat (nonces test_settled test_user) \<and>
   cancelIntent test_env test_user 1 (test_cancelSignature 1) test_settled =
     Inr (test_settled\<lparr>nonces := (\<lambda>_. 0)(test_user := 2)\<rparr>) \<and>
   unat (nonces (test_settled\<lparr>nonces := (\<lambda>_. 0)(test_user := 2)\<rparr>) test_user)
     = unat (nonces test_settled test_user) + 1 \<and>
   stake test_env test_solver MINIMUM_STAKE test_settled =
     Inr ((pay test_solver test_bridge MINIMUM_STAKE test_settled)
        \<lparr>solverStakes := (\<lambda>_. 0)(test_solver := 2000000000000000000),
         events := [IntentFulfilled test_user test_solver test_token 100 1,
                    StakeAdded test_solver MINIMUM_STAKE 2000000000000000000]\<rparr>) \<and>
   nonces ((pay test_solver test_bridge MINIMUM_STAKE test_settled)
        \<lparr>solverStakes := (\<lambda>_. 0)(test_solver := 2000000000000000000),
         events := [IntentFulfilled test_user test_solver test_token 100 1,
                    StakeAdded test_solver MINIMUM_STAKE 2000000000000000000]\<rparr>)
     = nonces test_settled \<and>
   unat (nonces test_world test_user)
     \<le> unat (nonces (perform test_env
         [Call (FulfillIntent test_solver 1000 test_user test_token 100 1 2000
            (test_userSignature 100 0) (test_solverSignature 100 0)),
          Call (Stake test_solver MINIMUM_STAKE),
          Call (CancelIntent test_user 1 (test_cancelSignature 1))] test_world) test_user) \<and>
   nonces (perform test_env
         [Call (FulfillIntent test_solver 1000 test_user test_token 100 1 2000
            (test_userSignature 100 0) (test_solverSignature 100 0)),
          Call (Stake test_solver MINIMUM_STAKE),
          Call (CancelIntent test_user 1 (test_cancelSignature 1))] test_world) test_user = 2"
proof -
  let ?c = "FulfillIntent test_solver 1000 test_user test_token 100 1 2000
       (test_userSignature 100 0) (test_solverSignature 100 0)"
  let ?steps = "[Call ?c, Call (Stake test_solver MINIMUM_STAKE),
       Call (CancelIntent test_user 1 (test_cancelSignature 1))]"
  let ?s2 = "test_settled\<lparr>nonces := (\<lambda>_. 0)(test_user := 2)\<rparr>"
  let ?s3 = "(pay test_solver test_bridge MINIMUM_STAKE test_settled)
        \<lparr>solverStakes := (\<lambda>_. 0)(test_solver := 2000000000000000000),
         events := [IntentFulfilled test_user test_solver test_token 100 1,
                    StakeAdded test_solver MINIMUM_STAKE 2000000000000000000]\<rparr>"
  have e: "exec test_env ?c test_world = Inr test_settled"
    by (simp add: test_settle)
  note settle = nonce_counter [where env = test_env and c = ?c and s = test_world
      and s' = test_settled and steps = ?steps and base = test_env and tc = erc20_code
      and rc = plain_account, unfolded test_env_code]
  note cancel = nonce_counter [where env = test_env and s = test_settled and s' = ?s2
      and msg_sender = test_user and expectedNonce = 1 and sig = "test_cancelSignature 1"]
  from settle [THEN conjunct2, THEN conjunct2, THEN conjunct2, THEN conjunct2]
    test_env_keeps_nonces e
  have step: "nonces test_settled = (nonces test_world)(test_user := nonces test_world test_user + 1)"
    and one: "unat (nonces test_settled test_user) = unat (nonces test_world test_user) + 1"
    by simp_all
  from settle [THEN conjunct2, THEN conjunct2, THEN conjunct2, THEN conjunct1] e
  have least: "unat (nonces test_world test_user) + 1 \<le> unat (nonces test_settled test_user)"
    by simp
  from cancel [THEN conjunct2, THEN conjunct1] test_cancel
  have again: "unat (nonces ?s2 test_user) = unat (nonces test_settled test_user) + 1"
    by blast
  have staked: "stake test_env test_solver MINIMUM_STAKE test_settled = Inr ?s3"
    by (simp add: stake_unfold MINIMUM_STAKE_def)
  note deposit = nonce_counter [where env = test_env and s = test_settled and s' = ?s3
      and msg_sender = test_solver and msg_value = MINIMUM_STAKE]
  from deposit [THEN conjunct2, THEN conjunct2, THEN conjunct1] staked
  have kept: "nonces ?s3 = nonces test_settled"
    by blast
  from settle [THEN conjunct1]
  have mono: "unat (nonces test_world test_user) \<le> unat (nonces (perform test_env ?steps test_world) test_user)"
    by blast
  have final: "nonces (perform test_env ?steps test_world) test_user = 2"
    by (simp add: transact_def commit_def test_settle stake_unfold cancelIntent_unfold pay_def Let_def
        MINIMUM_STAKE_def)
  from test_env_keeps_nonces e step one least test_cancel again staked kept mono final
  show ?thesis by blast
qed

text \<open>
  The user's account has code and is the token of the user's own intent. Its code cancels
  the account's current nonce when the contract asks it to transfer: the settlement
  succeeds, and this one call takes the user's nonce from 0 to 2.
\<close>

theorem nonce_counter_reentered_counterexample:
  "nonces test_world test_user = 0 \<and>
   consumes (FulfillIntent test_solver 1000 test_user test_user 100 1 2000
       test_own_userSignature test_own_solverSignature) = Some test_user \<and>
   exec test_env_cancelling (FulfillIntent test_solver 1000 test_user test_user 100 1 2000
       test_own_userSignature test_own_solverSignature) test_world =
     Inr (test_world\<lparr>nonces := (\<lambda>_. 0)(test_user := 2),
            events := [IntentFulfilled test_user test_solver test_user 100 1]\<rparr>) \<and>
   nonces (test_world\<lparr>nonces := (\<lambda>_. 0)(test_user := 2),
            events := [IntentFulfilled test_user test_solver test_user 100 1]\<rparr>) test_user = 2 \<and>
   (2 :: uint256) \<noteq> 0 + 1"
  by (simp add: test_settle_cancelling)

text \<open>
  C7 (as amended). The claim reads: stake increases the caller's bond unconditionally for
  every deposited amount greater than 0, and records the new total. The contract
  refuses a deposit below MINIMUM_STAKE (line 45). What holds: for a caller who owns the
  value it sends, stake reverts with "Insufficient stake" when the value is below
  MINIMUM_STAKE; otherwise, unless the new total overflows 256 bits, the value moves to
  the contract, the caller's bond grows by exactly the value, and StakeAdded records the
  value and the new total.
\<close>

theorem stake_adds_bond:
  assumes "msg_value \<le> balance s msg_sender"
  shows "stake env msg_sender msg_value s =
    (if msg_value < MINIMUM_STAKE then Inl (Error ''Insufficient stake'')
     else if 2 ^ 256 \<le> unat (solverStakes s msg_sender) + unat msg_value then Inl Panic_overflow
     else Inr ((pay msg_sender (self env) msg_value s)
            \<lparr>solverStakes := (solverStakes s)(msg_sender := solverStakes s msg_sender + msg_value),
             events := events s @
               [StakeAdded msg_sender msg_value (solverStakes s msg_sender + msg_value)]\<rparr>))"
  using assms by (auto simp: stake_unfold)

text \<open>The solver of the instance deposits MINIMUM_STAKE a second time.\<close>

theorem stake_adds_bond_witness:
  "MINIMUM_STAKE \<le> balance test_world test_solver \<and>
   solverStakes (transact test_env (Stake test_solver MINIMUM_STAKE) test_world) test_solver
     = 2000000000000000000 \<and>
   events (transact test_env (Stake test_solver MINIMUM_STAKE) test_world)
     = [StakeAdded test_solver MINIMUM_STAKE 2000000000000000000]"
  using stake_adds_bond [of MINIMUM_STAKE test_world test_solver test_env]
  by (simp add: MINIMUM_STAKE_def transact_def commit_def pay_def Let_def)

text \<open>A deposit of 5 wei, which the solver owns, is greater than 0 and is refused.\<close>

theorem stake_small_deposit_counterexample:
  "(0 :: uint256) < 5 \<and> (5 :: uint256) \<le> balance test_world test_solver \<and>
   stake test_env test_solver 5 test_world = Inl (Error ''Insufficient stake'')"
  by (simp add: stake_unfold MINIMUM_STAKE_def)

text \<open>
  C8 (as amended). In a call that is not re-entrant, withdrawStake(amount) fails with
  "invalid amount" exactly when amount is 0 or exceeds the caller's stake. Otherwise it
  first writes the stake decreased by amount and then sends the amount to the caller: when
  the contract does not hold the amount the call reverts; else the caller's code runs, in
  a state that already holds the decreased stake and the guard. When that code refuses
  the value the call reverts; when it accepts, the call succeeds, in the state that code
  has left, and StakeWithdrawn reports the stake as it is then. For a caller that takes
  the value as a plain account does, running no code, that is the state with the stake
  decreased by amount and the amount moved to the caller. Whatever the caller's code
  calls or changes, a withdrawStake among its calls is refused by the guard.
\<close>

theorem withdrawStake_spec:
  assumes "\<not> entered s"
  shows
    "(withdrawStake env msg_sender amount s = Inl (Error ''invalid amount'') \<longleftrightarrow>
        amount = 0 \<or> solverStakes s msg_sender < amount) \<and>
     (amount \<noteq> 0 \<and> amount \<le> solverStakes s msg_sender \<longrightarrow>
        withdrawStake env msg_sender amount s =
          (if balance s (self env) < amount then Inl InsufficientBalance
           else case receive_value env msg_sender (self env) amount
                  (pay (self env) msg_sender amount
                     (s\<lparr>entered := True,
                         solverStakes := (solverStakes s)
                           (msg_sender := solverStakes s msg_sender - amount)\<rparr>)) of
              None \<Rightarrow> Inl FailedCall
            | Some s2 \<Rightarrow>
                Inr (s2\<lparr>events := events s2 @
                         [StakeWithdrawn msg_sender amount (solverStakes s2 msg_sender)],
                       entered := False\<rparr>))) \<and>
     (amount \<noteq> 0 \<and> amount \<le> solverStakes s msg_sender \<and> amount \<le> balance s (self env) \<and>
      receive_value env msg_sender (self env) amount = Some \<longrightarrow>
        withdrawStake env msg_sender amount s =
          Inr ((pay (self env) msg_sender amount s)
            \<lparr>solverStakes := (solverStakes s)(msg_sender := solverStakes s msg_sender - amount),
             events := events s @
               [StakeWithdrawn msg_sender amount (solverStakes s msg_sender - amount)]\<rparr>)) \<and>
     (\<forall>steps caller again.
        withdrawStake env caller again
          (perform env steps
             (pay (self env) msg_sender amount
                (s\<lparr>entered := True,
                    solverStakes := (solverStakes s)
                      (msg_sender := solverStakes s msg_sender - amount)\<rparr>)))
          = Inl ReentrancyGuardReentrantCall)"
proof -
  have a: "withdrawStake env msg_sender amount s = Inl (Error ''invalid amount'') \<longleftrightarrow>
        amount = 0 \<or> solverStakes s msg_sender < amount"
    unfolding withdrawStake_unfold [OF assms] by (auto split: option.splits)
  have b: "amount \<noteq> 0 \<and> amount \<le> solverStakes s msg_sender \<longrightarrow>
        withdrawStake env msg_sender amount s =
          (if balance s (self env) < amount then Inl InsufficientBalance
           else case receive_value env msg_sender (self env) amount
                  (pay (self env) msg_sender amount
                     (s\<lparr>entered := True,
                         solverStakes := (solverStakes s)
                           (msg_sender := solverStakes s msg_sender - amount)\<rparr>)) of
              None \<Rightarrow> Inl FailedCall
            | Some s2 \<Rightarrow>
                Inr (s2\<lparr>events := events s2 @
                         [StakeWithdrawn msg_sender amount (solverStakes s2 msg_sender)],
                       entered := False\<rparr>))"
    unfolding withdrawStake_unfold [OF assms] by (auto simp: not_less)
  have c: "withdrawStake env msg_sender amount s =
          Inr ((pay (self env) msg_sender amount s)
            \<lparr>solverStakes := (solverStakes s)(msg_sender := solverStakes s msg_sender - amount),
             events := events s @
               [StakeWithdrawn msg_sender amount (solverStakes s msg_sender - amount)]\<rparr>)"
    if "amount \<noteq> 0 \<and> amount \<le> solverStakes s msg_sender \<and> amount \<le> balance s (self env) \<and>
      receive_value env msg_sender (self env) amount = Some"
    using that assms unfolding withdrawStake_unfold [OF assms]
    by (simp add: not_less pay_def Let_def)
  have d: "withdrawStake env caller again
          (perform env steps
             (pay (self env) msg_sender amount
                (s\<lparr>entered := True,
                    solverStakes := (solverStakes s)
                      (msg_sender := solverStakes s msg_sender - amount)\<rparr>)))
          = Inl ReentrancyGuardReentrantCall" for steps caller again
    by (simp add: withdrawStake_def nonReentrant_entered perform_entered)
  from a b c d show ?thesis by blast
qed

text \<open>
  The solver of the instance, a plain account, withdraws nothing (refused), then its
  whole stake: the contract pays it out. A withdrawal attempted during the payment, here
  after a deposit made from within it, is refused.
\<close>

theorem withdrawStake_spec_witness:
  "\<not> entered test_world \<and>
   withdrawStake test_env test_solver 0 test_world = Inl (Error ''invalid amount'') \<and>
   receive_value test_env test_solver (self test_env) MINIMUM_STAKE = Some \<and>
   withdrawStake test_env test_solver MINIMUM_STAKE test_world =
     Inr (test_world\<lparr>solverStakes := (\<lambda>_. 0)(test_solver := 0),
            balance := (\<lambda>_. 0)(test_bridge := 0, test_solver := 4000000000000000000),
            events := [StakeWithdrawn test_solver MINIMUM_STAKE 0]\<rparr>) \<and>
   withdrawStake test_env test_solver MINIMUM_STAKE
     (perform test_env [Call (Stake test_solver MINIMUM_STAKE)]
        (pay test_bridge test_solver MINIMUM_STAKE
           (test_world\<lparr>entered := True, solverStakes := (\<lambda>_. 0)(test_solver := 0)\<rparr>)))
     = Inl ReentrancyGuardReentrantCall"
proof -
  have g: "\<not> entered test_world" by simp
  note spec = withdrawStake_spec [OF g, where env = test_env and msg_sender = test_solver]
  have plain: "receive_value test_env test_solver (self test_env) MINIMUM_STAKE = Some"
    by (auto simp: accept_value_def)
  have zero: "withdrawStake test_env test_solver 0 test_world = Inl (Error ''invalid amount'')"
    using spec [of 0] by simp
  have paid: "withdrawStake test_env test_solver MINIMUM_STAKE test_world =
     Inr (test_world\<lparr>solverStakes := (\<lambda>_. 0)(test_solver := 0),
            balance := (\<lambda>_. 0)(test_bridge := 0, test_solver := 4000000000000000000),
            events := [StakeWithdrawn test_solver MINIMUM_STAKE 0]\<rparr>)"
    using spec [of MINIMUM_STAKE]
    by (simp add: accept_value_def pay_def Let_def MINIMUM_STAKE_def)
  have again: "withdrawStake test_env test_solver MINIMUM_STAKE
     (perform test_env [Call (Stake test_solver MINIMUM_STAKE)]
        (pay test_bridge test_solver MINIMUM_STAKE
           (test_world\<lparr>entered := True, solverStakes := (\<lambda>_. 0)(test_solver := 0)\<rparr>)))
     = Inl ReentrancyGuardReentrantCall"
  proof -
    have "withdrawStake test_env test_solver MINIMUM_STAKE
     (perform test_env [Call (Stake test_solver MINIMUM_STAKE)]
        (pay (self test_env) test_solver MINIMUM_STAKE
           (test_world\<lparr>entered := True,
              solverStakes := (solverStakes test_world)
                (test_solver := solverStakes test_world test_solver - MINIMUM_STAKE)\<rparr>)))
     = Inl ReentrancyGuardReentrantCall"
      using spec [of MINIMUM_STAKE] by blast
    then show ?thesis by simp
  qed
  from g zero plain paid again show ?thesis by blast
qed

text \<open>
  Two solver contracts in the place of the plain account; the amount is neither 0 nor
  above the stake. One refuses value: the withdrawal fails and the stake is not
  decreased. The other accepts the value and stakes it again from within (stake is not
  guarded): the withdrawal succeeds and the stake is what it was before, not decreased.
\<close>

theorem withdrawStake_refused_counterexample:
  "\<not> entered test_world \<and> MINIMUM_STAKE \<noteq> 0 \<and>
   MINIMUM_STAKE \<le> solverStakes test_world test_solver \<and>
   withdrawStake test_env_refusing test_solver MINIMUM_STAKE test_world = Inl FailedCall \<and>
   withdrawStake test_env_restaking test_solver MINIMUM_STAKE test_world =
     Inr (test_world\<lparr>events := [StakeAdded test_solver MINIMUM_STAKE MINIMUM_STAKE,
                                StakeWithdrawn test_solver MINIMUM_STAKE MINIMUM_STAKE]\<rparr>) \<and>
   solverStakes (test_world\<lparr>events := [StakeAdded test_solver MINIMUM_STAKE MINIMUM_STAKE,
                                StakeWithdrawn test_solver MINIMUM_STAKE MINIMUM_STAKE]\<rparr>) test_solver
     = solverStakes test_world test_solver"
  by (simp add: withdrawStake_unfold refuse_value_def test_withdraw_restaking)

text \<open>
  C9. Cancellation is self-only. A cancelIntent that succeeds was signed by the caller
  itself over (caller, expectedNonce) and sets the caller's own nonce; and whether it
  succeeds or not, and whatever signature it carries, the nonce of every other user is
  as before.
\<close>

theorem cancelIntent_own_nonce:
  "(cancelIntent env msg_sender expectedNonce sig s = Inr s' \<longrightarrow>
      ECDSA_recover env (hashCancel env msg_sender expectedNonce) sig = Some msg_sender \<and>
      nonces s msg_sender = expectedNonce \<and>
      nonces s' = (nonces s)(msg_sender := expectedNonce + 1)) \<and>
   (\<forall>u. u \<noteq> msg_sender \<longrightarrow>
      nonces (transact env (CancelIntent msg_sender expectedNonce sig) s) u = nonces s u)"
  by (auto simp: cancelIntent_unfold transact_def commit_def split: if_splits option.splits)

text \<open>
  In the instance the solver presents the user's valid cancellation signature: the call
  fails and the user's nonce is untouched; the user's own call succeeds.
\<close>

theorem cancelIntent_own_nonce_witness:
  "ECDSA_recover test_env (hashCancel test_env test_user 0) (test_cancelSignature 0) = Some test_user \<and>
   test_user \<noteq> test_solver \<and>
   cancelIntent test_env test_solver 0 (test_cancelSignature 0) test_world = Inl (Error ''bad cancel sig'') \<and>
   nonces (transact test_env (CancelIntent test_solver 0 (test_cancelSignature 0)) test_world) test_user
     = nonces test_world test_user \<and>
   cancelIntent test_env test_user 0 (test_cancelSignature 0) test_world =
     Inr (test_world\<lparr>nonces := (nonces test_world)(test_user := 0 + 1)\<rparr>) \<and>
   nonces test_world test_user = 0"
proof -
  have valid: "ECDSA_recover test_env (hashCancel test_env test_user 0) (test_cancelSignature 0)
      = Some test_user"
    by simp
  have d: "test_user \<noteq> test_solver" by simp
  have stolen: "cancelIntent test_env test_solver 0 (test_cancelSignature 0) test_world
      = Inl (Error ''bad cancel sig'')"
    by (simp add: cancelIntent_unfold)
  have untouched: "nonces (transact test_env (CancelIntent test_solver 0 (test_cancelSignature 0))
      test_world) test_user = nonces test_world test_user"
    using d cancelIntent_own_nonce [of test_env test_solver 0 "test_cancelSignature 0" test_world]
    by blast
  have own: "cancelIntent test_env test_user 0 (test_cancelSignature 0) test_world =
     Inr (test_world\<lparr>nonces := (nonces test_world)(test_user := 0 + 1)\<rparr>)"
    by (simp add: cancelIntent_unfold)
  then have "nonces test_world test_user = 0"
    using cancelIntent_own_nonce [of test_env test_user 0 "test_cancelSignature 0" test_world]
    by blast
  with valid d stolen untouched own show ?thesis by blast
qed

text \<open>
  C10 (as amended). Withdrawal is not floored at the eligibility threshold. In a call
  that is not re-entrant, for every caller with stake b and every amount with
  0 < amount <= b that the contract holds, withdrawStake succeeds whenever the caller's
  code accepts the value and leaves the caller's stake as the contract wrote it (as when
  the caller is a plain account), also when the stake left, b - amount, is strictly
  between 0 and MINIMUM_STAKE. When b - amount is below MINIMUM_STAKE, in the state the
  withdrawal leaves every fulfillIntent by that caller fails, with "Not staked" for a
  valid intent before its deadline, although the caller may still hold a nonzero stake.
\<close>

theorem withdrawStake_below_minimum:
  assumes guard: "\<not> entered s" and some: "amount \<noteq> 0"
    and owned: "amount \<le> solverStakes s msg_sender"
    and held: "amount \<le> balance s (self env)"
    and accepted: "receive_value env msg_sender (self env) amount
        (pay (self env) msg_sender amount
           (s\<lparr>entered := True,
               solverStakes := (solverStakes s)(msg_sender := solverStakes s msg_sender - amount)\<rparr>))
        = Some s2"
    and kept: "solverStakes s2 msg_sender = solverStakes s msg_sender - amount"
  shows "\<exists>s'. withdrawStake env msg_sender amount s = Inr s' \<and>
     solverStakes s' msg_sender = solverStakes s msg_sender - amount \<and>
     (solverStakes s msg_sender - amount < MINIMUM_STAKE \<longrightarrow>
        (\<forall>now user token a f d usig ssig.
           isl (fulfillIntent env msg_sender now user token a f d usig ssig s') \<and>
           (intent_valid user token a f \<and> now \<le> d \<longrightarrow>
              fulfillIntent env msg_sender now user token a f d usig ssig s'
                = Inl (Error ''Not staked''))))"
proof -
  let ?s' = "s2\<lparr>events := events s2 @ [StakeWithdrawn msg_sender amount (solverStakes s2 msg_sender)],
     entered := False\<rparr>"
  have w: "withdrawStake env msg_sender amount s = Inr ?s'"
    using some owned held accepted by (simp add: withdrawStake_unfold [OF guard] not_less)
  have left: "solverStakes ?s' msg_sender = solverStakes s msg_sender - amount"
    using kept by simp
  have g': "\<not> entered ?s'" by simp
  have out: "isl (fulfillIntent env msg_sender now user token a f d usig ssig ?s') \<and>
           (intent_valid user token a f \<and> now \<le> d \<longrightarrow>
              fulfillIntent env msg_sender now user token a f d usig ssig ?s'
                = Inl (Error ''Not staked''))"
    if low: "solverStakes s msg_sender - amount < MINIMUM_STAKE"
    for now user token a f d usig ssig
  proof -
    from low left have l: "solverStakes ?s' msg_sender < MINIMUM_STAKE" by simp
    then have "\<not> preconditions env msg_sender now user token a f d usig ssig ?s'"
      by (simp add: preconditions_def not_le)
    then have 1: "isl (fulfillIntent env msg_sender now user token a f d usig ssig ?s')"
      by (cases "fulfillIntent env msg_sender now user token a f d usig ssig ?s'")
        (auto simp: fulfillIntent_Inr)
    have 2: "fulfillIntent env msg_sender now user token a f d usig ssig ?s'
                = Inl (Error ''Not staked'')"
      if "intent_valid user token a f \<and> now \<le> d"
      using that l unfolding fulfillIntent_unfold [OF g'] intent_valid_def
      by (auto simp: not_less not_le word_gt_0)
    from 1 2 show ?thesis by blast
  qed
  from w left out show ?thesis by blast
qed

text \<open>
  The solver of the instance, a plain account staked at exactly MINIMUM_STAKE, withdraws
  1 wei: it keeps a stake of MINIMUM_STAKE - 1 and can no longer settle.
\<close>

theorem withdrawStake_below_minimum_witness:
  "\<not> entered test_world \<and> (1 :: uint256) \<noteq> 0 \<and> 1 \<le> solverStakes test_world test_solver \<and>
   1 \<le> balance test_world (self test_env) \<and>
   receive_value test_env test_solver (self test_env) 1 = Some \<and>
   solverStakes test_world test_solver - 1 < MINIMUM_STAKE \<and>
   solverStakes test_world test_solver - 1 \<noteq> 0 \<and>
   solverStakes (transact test_env (WithdrawStake test_solver 1) test_world) test_solver
     = MINIMUM_STAKE - 1 \<and>
   fulfillIntent test_env test_solver 1000 test_user test_token 100 1 2000
     (test_userSignature 100 0) (test_solverSignature 100 0)
     (transact test_env (WithdrawStake test_solver 1) test_world) = Inl (Error ''Not staked'')"
proof -
  let ?mid = "pay (self test_env) test_solver 1
     (test_world\<lparr>entered := True,
        solverStakes := (solverStakes test_world)
          (test_solver := solverStakes test_world test_solver - 1)\<rparr>)"
  have g: "\<not> entered test_world" by simp
  have some: "(1 :: uint256) \<noteq> 0" by simp
  have owned: "1 \<le> solverStakes test_world test_solver"
    by (simp add: MINIMUM_STAKE_def)
  have held: "1 \<le> balance test_world (self test_env)"
    by (simp add: MINIMUM_STAKE_def)
  have plain: "receive_value test_env test_solver (self test_env) 1 = Some"
    by (auto simp: accept_value_def)
  then have accepted: "receive_value test_env test_solver (self test_env) 1 ?mid = Some ?mid"
    by simp
  have kept: "solverStakes ?mid test_solver = solverStakes test_world test_solver - 1"
    by simp
  have low: "solverStakes test_world test_solver - 1 < MINIMUM_STAKE"
    by (simp add: MINIMUM_STAKE_def)
  have nz: "solverStakes test_world test_solver - 1 \<noteq> 0"
    by (simp add: MINIMUM_STAKE_def)
  from withdrawStake_below_minimum [OF g some owned held accepted kept] low
  obtain s' where w: "withdrawStake test_env test_solver 1 test_world = Inr s'"
    and left: "solverStakes s' test_solver = solverStakes test_world test_solver - 1"
    and out: "intent_valid test_user test_token 100 1 \<and> (1000 :: uint256) \<le> 2000 \<longrightarrow>
       fulfillIntent test_env test_solver 1000 test_user test_token 100 1 2000
         (test_userSignature 100 0) (test_solverSignature 100 0) s' = Inl (Error ''Not staked'')"
    by blast
  from w have t: "transact test_env (WithdrawStake test_solver 1) test_world = s'"
    by (simp add: transact_def commit_def)
  from out have "fulfillIntent test_env test_solver 1000 test_user test_token 100 1 2000
         (test_userSignature 100 0) (test_solverSignature 100 0) s' = Inl (Error ''Not staked'')"
    by simp
  with g some owned held plain low nz left show ?thesis
    unfolding t by simp
qed

text \<open>
  Two solver contracts in the place of the plain account, each withdrawing 1 wei of a
  stake of exactly MINIMUM_STAKE. For the one that refuses value the withdrawal does not
  succeed. For the one that stakes MINIMUM_STAKE again on receiving the value it
  succeeds, and the solver ends with a stake above MINIMUM_STAKE, still eligible.
\<close>

theorem withdrawStake_partial_refused_counterexample:
  "\<not> entered test_world \<and> (0 :: uint256) < 1 \<and> 1 \<le> solverStakes test_world test_solver \<and>
   solverStakes test_world test_solver - 1 < MINIMUM_STAKE \<and>
   solverStakes test_world test_solver - 1 \<noteq> 0 \<and>
   withdrawStake test_env_refusing test_solver 1 test_world = Inl FailedCall \<and>
   withdrawStake test_env_restaking test_solver 1 test_world =
     Inr (test_world\<lparr>solverStakes := (\<lambda>_. 0)(test_solver := 1999999999999999999),
            balance := (\<lambda>_. 0)(test_bridge := 1999999999999999999,
                                   test_solver := 2000000000000000001),
            events := [StakeAdded test_solver MINIMUM_STAKE 1999999999999999999,
                       StakeWithdrawn test_solver 1 1999999999999999999]\<rparr>) \<and>
   MINIMUM_STAKE \<le> (1999999999999999999 :: uint256)"
proof -
  have restaked: "withdrawStake test_env_restaking test_solver 1 test_world =
     Inr (test_world\<lparr>solverStakes := (\<lambda>_. 0)(test_solver := 1999999999999999999),
            balance := (\<lambda>_. 0)(test_bridge := 1999999999999999999,
                                   test_solver := 2000000000000000001),
            events := [StakeAdded test_solver MINIMUM_STAKE 1999999999999999999,
                       StakeWithdrawn test_solver 1 1999999999999999999]\<rparr>)"
    by (simp add: test_env_restaking_def withdrawStake_unfold restaking_account_def
        transact_def commit_def stake_unfold pay_def Let_def MINIMUM_STAKE_def)
      (auto simp: test_world_def MINIMUM_STAKE_def fun_eq_iff)
  then show ?thesis
    by (simp add: withdrawStake_unfold refuse_value_def MINIMUM_STAKE_def)
qed

end
